theory Spec2Isabelle
  imports Complex_Main "HOL-Library.AList"
begin

chapter \<open>The model\<close>

section \<open>Values, identifiers and errors\<close>

text \<open>
  Identifiers are Python strings in the source. The three ways the engine builds one are
  kept apart by a datatype: \<open>RootId\<close> is \<open>'root'\<close>, \<open>LevelId l n\<close> is
  \<open>f"level_{l}_{n}"\<close>, and \<open>Uuid n\<close> is the \<open>n\<close>-th \<open>str(uuid.uuid4())\<close> drawn, taken
  to be different from every other identifier.
\<close>

datatype ident = RootId | LevelId nat nat | Uuid nat

text \<open>The values stored in a keyword dictionary.\<close>

datatype pyval = PStr string | PInt int | PReal real | PVec "real list" | PIdent ident

text \<open>
  A keyword dictionary, as an association list in insertion order: \<open>kw.get(k)\<close> is
  \<open>map_of kw k\<close>, and \<open>kw[k] = v\<close> is \<open>AList.update k v kw\<close>.
\<close>

type_synonym keyword = "(string \<times> pyval) list"

text \<open>
  Exceptions. \<open>LibraryError\<close> stands for whatever a call into NumPy, scikit-learn,
  hdbscan or sentence-transformers raises, the libraries' own \<open>ValueError\<close>s among them
  (their messages are not the engine's); the other constructors are raised by the
  engine's own statements, \<open>ValueError\<close> by the dispatch on the strategy alone. All of
  them are exceptions derived from \<open>Exception\<close>: an interrupt of the interpreter
  (\<open>KeyboardInterrupt\<close>, \<open>SystemExit\<close>, a cancelled task) is not a value of the model.
\<close>

datatype error =
    ValueError string
  | KeyError string
  | IndexError
  | TypeError string
  | AttributeError string
  | LibraryError string

text \<open>
  The state that the engine reads and writes: the keyword dictionaries of the batch
  (a list of keywords in the source is a list of references, positions in \<open>store\<close>) and
  the number of uuids drawn so far.
\<close>

record world =
  store :: "keyword list"
  next_uuid :: nat

definition fresh_uuid :: "world \<Rightarrow> ident \<times> world" where
  "fresh_uuid w = (Uuid (next_uuid w), w\<lparr>next_uuid := Suc (next_uuid w)\<rparr>)"

text \<open>
  The calls into the libraries, as parameters of the model. \<open>None\<close> is a call that
  raises. Arrays are lists of rows; labels are Python values (integers or identifiers).
  \<^item> \<open>encode\<close>: \<open>SentenceTransformer.encode(texts)\<close>;
  \<^item> \<open>agglomerative\<close>: \<open>AgglomerativeClustering(n_clusters, linkage,
    distance_threshold).fit_predict(embeddings)\<close>;
  \<^item> \<open>kmeans\<close>: \<open>KMeans(n_clusters=k, random_state=42, n_init=10)\<close>, its
    \<open>fit_predict(embeddings)\<close> and \<open>inertia_\<close>;
  \<^item> \<open>silhouette_score\<close>, \<open>calinski_harabasz_score\<close>: the scikit-learn metrics;
  \<^item> \<open>tfidf\<close>: \<open>TfidfVectorizer(max_features=1000, stop_words='english',
    ngram_range=(1, 2))\<close>, its \<open>fit_transform(texts)\<close> and \<open>get_feature_names_out()\<close>;
  \<^item> \<open>lda\<close>, \<open>nmf\<close>: the decomposition with \<open>n_components\<close> topics, its
    \<open>fit_transform(matrix)\<close> and \<open>components_\<close>;
  \<^item> \<open>lda_perplexity\<close>: \<open>lda.perplexity(matrix)\<close> of the fitted model;
  \<^item> \<open>argsort\<close>: \<open>ndarray.argsort()\<close>; \<open>linalg_norm\<close>: \<open>np.linalg.norm\<close>;
  \<^item> \<open>hdbscan\<close>: \<open>HDBSCAN(min_cluster_size=2, min_samples=1, metric='euclidean',
    cluster_selection_method='eom').fit_predict(embeddings)\<close>;
  \<^item> \<open>round_to\<close>: Python's \<open>round(x, ndigits)\<close> on a float.
\<close>

record library =
  encode :: "string list \<Rightarrow> real list list option"
  agglomerative :: "nat \<Rightarrow> string \<Rightarrow> real option \<Rightarrow> real list list \<Rightarrow> int list option"
  kmeans :: "nat \<Rightarrow> real list list \<Rightarrow> (int list \<times> real) option"
  silhouette_score :: "real list list \<Rightarrow> pyval list \<Rightarrow> real option"
  calinski_harabasz_score :: "real list list \<Rightarrow> pyval list \<Rightarrow> real option"
  tfidf :: "string list \<Rightarrow> (real list list \<times> string list) option"
  lda :: "nat \<Rightarrow> real list list \<Rightarrow> (real list list \<times> real list list) option"
  nmf :: "nat \<Rightarrow> real list list \<Rightarrow> (real list list \<times> real list list) option"
  lda_perplexity :: "nat \<Rightarrow> real list list \<Rightarrow> real option"
  argsort :: "real list \<Rightarrow> nat list"
  linalg_norm :: "real list \<Rightarrow> real"
  hdbscan :: "real list list \<Rightarrow> int list option"
  round_to :: "real \<Rightarrow> nat \<Rightarrow> real"

definition and_then :: "error + 'a \<Rightarrow> ('a \<Rightarrow> error + 'b) \<Rightarrow> error + 'b" where
  "and_then r f = (case r of Inl e \<Rightarrow> Inl e | Inr x \<Rightarrow> f x)"

text \<open>\<open>kw.get('keyword', '')\<close>, for a keyword whose \<open>keyword\<close> entry is a string.\<close>

definition keyword_text :: "keyword \<Rightarrow> string" where
  "keyword_text kw = (case map_of kw ''keyword'' of Some (PStr s) \<Rightarrow> s | _ \<Rightarrow> [])"

text \<open>
  A cluster dictionary. The keys that only some clusters have are optional fields:
  \<open>centroid\<close> and \<open>density\<close> are set by \<open>_create_cluster_objects\<close>, the topic keys by
  \<open>_create_topic_clusters\<close>, \<open>sub_topics\<close> by \<open>_refine_cluster_with_topics\<close>.
  \<open>keyword_data\<close> holds references to the keyword dictionaries: positions in the store
  of keywords. \<open>created_at\<close> (the wall clock) is left out.
\<close>

record sub_topic =
  st_id :: ident
  st_label :: string
  st_keywords :: "string list"
  st_topic_words :: "string list"

record cluster =
  c_id :: ident
  c_label :: string
  c_keywords :: "string list"
  c_keyword_data :: "nat list"
  c_centroid :: "real list option"
  c_size :: nat
  c_density :: "real option"
  c_topic_id :: "int option"
  c_topic_words :: "string list option"
  c_topic_distribution :: "real list option"
  c_sub_topics :: "sub_topic list option"

section \<open>Topic coherence (\<open>advanced_clustering.py\<close>, \<open>_calculate_topic_coherence\<close>)\<close>

text \<open>
  Python strings are modelled as \<open>string\<close>. \<open>str.lower\<close> is modelled on the ASCII
  letters; \<open>w in d\<close> on two strings is the substring test.
\<close>

definition lower_char :: "char \<Rightarrow> char" where
  "lower_char c =
     (case map_of (zip ''ABCDEFGHIJKLMNOPQRSTUVWXYZ'' ''abcdefghijklmnopqrstuvwxyz'') c of
        Some l \<Rightarrow> l
      | None \<Rightarrow> c)"

definition lower :: "string \<Rightarrow> string" where
  "lower s = map lower_char s"

fun starts_with :: "string \<Rightarrow> string \<Rightarrow> bool" where
  "starts_with d [] = True"
| "starts_with [] (c # w) = False"
| "starts_with (x # d) (c # w) = (x = c \<and> starts_with d w)"

fun str_in :: "string \<Rightarrow> string \<Rightarrow> bool" where
  "str_in w [] = (w = [])"
| "str_in w (x # d) = (starts_with (x # d) w \<or> str_in w d)"

text \<open>
  \<open>sum(1 for doc in documents if word1 in doc.lower() and word2 in doc.lower())\<close>
\<close>

definition co_occurrences :: "string \<Rightarrow> string \<Rightarrow> string list \<Rightarrow> nat" where
  "co_occurrences word1 word2 documents =
     length (filter (\<lambda>doc. str_in word1 (lower doc) \<and> str_in word2 (lower doc)) documents)"

text \<open>
  The inner loop \<open>for j, word2 in enumerate(topic_words[i+1:], i+1)\<close> over the words
  after \<open>word1\<close>; the accumulator is the pair \<open>(coherence_score, word_pairs)\<close>.
\<close>

fun coherence_inner :: "string \<Rightarrow> string list \<Rightarrow> string list \<Rightarrow> real \<times> nat \<Rightarrow> real \<times> nat" where
  "coherence_inner word1 [] documents acc = acc"
| "coherence_inner word1 (word2 # rest) documents (coherence_score, word_pairs) =
     coherence_inner word1 rest documents
       ((if length documents > 0
         then coherence_score
                + real (co_occurrences word1 word2 documents) / real (length documents)
         else coherence_score),
        word_pairs + 1)"

text \<open>The outer loop \<open>for i, word1 in enumerate(topic_words)\<close>.\<close>

fun coherence_outer :: "string list \<Rightarrow> string list \<Rightarrow> real \<times> nat \<Rightarrow> real \<times> nat" where
  "coherence_outer [] documents acc = acc"
| "coherence_outer (word1 # rest) documents acc =
     coherence_outer rest documents (coherence_inner word1 rest documents acc)"

definition calculate_topic_coherence :: "string list \<Rightarrow> string list \<Rightarrow> real" where
  "calculate_topic_coherence topic_words documents =
     (case coherence_outer topic_words documents (0, 0) of
        (coherence_score, word_pairs) \<Rightarrow>
          if word_pairs > 0 then coherence_score / real word_pairs else 0)"

subsection \<open>The coherence of the specification\<close>

text \<open>
  The specification's words: the unordered pairs of the terms of \<open>T\<close> (one pair for every
  two positions), the fraction of the documents of \<open>D\<close> that contain both terms of a
  pair, and the mean of a list of numbers.
\<close>

fun unordered_pairs :: "'a list \<Rightarrow> ('a \<times> 'a) list" where
  "unordered_pairs [] = []"
| "unordered_pairs (x # xs) = map (Pair x) xs @ unordered_pairs xs"

definition contains_term :: "string \<Rightarrow> string \<Rightarrow> bool" where
  "contains_term doc t = str_in t (lower doc)"

definition cooccurrence_fraction :: "string list \<Rightarrow> string \<times> string \<Rightarrow> real" where
  "cooccurrence_fraction D p =
     real (length (filter (\<lambda>doc. contains_term doc (fst p) \<and> contains_term doc (snd p)) D))
       / real (length D)"

definition mean_of :: "real list \<Rightarrow> real" where
  "mean_of xs = sum_list xs / real (length xs)"

definition spec_coherence :: "string list \<Rightarrow> string list \<Rightarrow> real" where
  "spec_coherence T D =
     (if length T < 2 then 0 else mean_of (map (cooccurrence_fraction D) (unordered_pairs T)))"


section \<open>The hierarchy builder\<close>

subsection \<open>\<open>_group_similar_clusters\<close> and \<open>_group_cluster_groups\<close>\<close>

text \<open>
  \<open>np.array\<close> of a list of rows raises unless the rows have one length;
  \<open>np.dot(m, m.T)[i, j]\<close> is the dot product of rows \<open>i\<close> and \<open>j\<close>;
  \<open>np.mean(rows, axis=0)\<close> is the column-wise mean. Floats are modelled as reals.
\<close>

definition np_array :: "real list list \<Rightarrow> error + real list list" where
  "np_array rows =
     (if list_all (\<lambda>r. length r = length (hd rows)) rows then Inr rows
      else Inl (LibraryError ''inhomogeneous shape''))"

definition dot :: "real list \<Rightarrow> real list \<Rightarrow> real" where
  "dot xs ys = sum_list (map2 (*) xs ys)"

definition mean_axis0 :: "real list list \<Rightarrow> real list" where
  "mean_axis0 rows =
     map (\<lambda>k. sum_list (map (\<lambda>r. r ! k) rows) / real (length rows)) [0..<length (hd rows)]"

text \<open>\<open>[cluster['centroid'] for cluster in clusters]\<close>: a cluster without the key raises.\<close>

fun centroids_of :: "cluster list \<Rightarrow> error + real list list" where
  "centroids_of [] = Inr []"
| "centroids_of (c # cs) =
     (case c_centroid c of
        None \<Rightarrow> Inl (KeyError ''centroid'')
      | Some v \<Rightarrow> and_then (centroids_of cs) (\<lambda>vs. Inr (v # vs)))"

text \<open>
  The inner loop of \<open>_group_similar_clusters\<close>,
  \<open>for j, other_cluster in enumerate(clusters)\<close>, with \<open>threshold = 0.7\<close>.
\<close>

fun similar_inner ::
  "real list list \<Rightarrow> cluster list \<Rightarrow> nat \<Rightarrow> nat list \<Rightarrow> cluster list \<times> nat set
     \<Rightarrow> cluster list \<times> nat set" where
  "similar_inner cents clusters i [] (grp, used_clusters) = (grp, used_clusters)"
| "similar_inner cents clusters i (j # js) (grp, used_clusters) =
     similar_inner cents clusters i js
       (if j \<notin> used_clusters \<and> dot (cents ! i) (cents ! j) > 7 / 10
        then (grp @ [clusters ! j], insert j used_clusters)
        else (grp, used_clusters))"

text \<open>The outer loop, \<open>for i, cluster in enumerate(clusters)\<close>.\<close>

fun similar_outer ::
  "real list list \<Rightarrow> cluster list \<Rightarrow> nat list \<Rightarrow> cluster list list \<times> nat set
     \<Rightarrow> cluster list list \<times> nat set" where
  "similar_outer cents clusters [] (groups, used_clusters) = (groups, used_clusters)"
| "similar_outer cents clusters (i # is) (groups, used_clusters) =
     similar_outer cents clusters is
       (if i \<in> used_clusters then (groups, used_clusters)
        else case similar_inner cents clusters i [0..<length clusters]
                    ([clusters ! i], insert i used_clusters) of
               (grp, used') \<Rightarrow> (groups @ [grp], used'))"

text \<open>
  \<open>_group_cluster_groups\<close>: the centroid of a group is the mean of its clusters'
  centroids; \<open>threshold = 0.6\<close>; a group absorbs the later groups similar to it.
\<close>

fun group_centroids_of :: "cluster list list \<Rightarrow> error + real list list" where
  "group_centroids_of [] = Inr []"
| "group_centroids_of (g # gs) =
     and_then (centroids_of g) (\<lambda>centroids.
     and_then (np_array centroids) (\<lambda>arr.
     and_then (group_centroids_of gs) (\<lambda>rest. Inr (mean_axis0 arr # rest))))"

fun groups_inner ::
  "real list list \<Rightarrow> cluster list list \<Rightarrow> nat \<Rightarrow> nat list \<Rightarrow> cluster list \<times> nat set
     \<Rightarrow> cluster list \<times> nat set" where
  "groups_inner cents groups i [] (new_group, used_groups) = (new_group, used_groups)"
| "groups_inner cents groups i (j # js) (new_group, used_groups) =
     groups_inner cents groups i js
       (if j \<notin> used_groups \<and> dot (cents ! i) (cents ! j) > 6 / 10
        then (new_group @ groups ! j, insert j used_groups)
        else (new_group, used_groups))"

fun groups_outer ::
  "real list list \<Rightarrow> cluster list list \<Rightarrow> nat list \<Rightarrow> cluster list list \<times> nat set
     \<Rightarrow> cluster list list \<times> nat set" where
  "groups_outer cents groups [] (new_groups, used_groups) = (new_groups, used_groups)"
| "groups_outer cents groups (i # is) (new_groups, used_groups) =
     groups_outer cents groups is
       (if i \<in> used_groups then (new_groups, used_groups)
        else case groups_inner cents groups i [0..<length groups]
                    (groups ! i, insert i used_groups) of
               (new_group, used') \<Rightarrow> (new_groups @ [new_group], used'))"

definition group_cluster_groups :: "cluster list list \<Rightarrow> error + cluster list list" where
  "group_cluster_groups groups =
     (if length groups \<le> 1 then Inr []
      else
        and_then (group_centroids_of groups) (\<lambda>group_centroids.
        and_then (np_array group_centroids) (\<lambda>arr.
          let new_groups = fst (groups_outer arr groups [0..<length groups] ([], {}))
          in Inr (if length new_groups < length groups then new_groups else []))))"

text \<open>
  The loop \<open>while current_level:\<close> of \<open>_group_similar_clusters\<close>, as the source writes
  it: a loop that is not known to end, so not returning is the value \<open>None\<close>.
\<close>

partial_function (option) levels_while ::
  "cluster list list list \<Rightarrow> cluster list list \<Rightarrow> (error + cluster list list list) option" where
  "levels_while levels current_level =
     (if current_level = [] then Some (Inr levels)
      else case group_cluster_groups current_level of
             Inl e \<Rightarrow> Some (Inl e)
           | Inr next_level \<Rightarrow> levels_while (levels @ [current_level]) next_level)"

declare levels_while.simps [code]

text \<open>
  The same loop as a total function: every pass that continues has strictly fewer
  groups, which is its termination measure.
\<close>

function levels_loop ::
  "cluster list list list \<Rightarrow> cluster list list \<Rightarrow> error + cluster list list list" where
  "levels_loop levels current_level =
     (if current_level = [] then Inr levels
      else case group_cluster_groups current_level of
             Inl e \<Rightarrow> Inl e
           | Inr next_level \<Rightarrow> levels_loop (levels @ [current_level]) next_level)"
  by pat_completeness auto
termination
proof (relation "measure (\<lambda>(levels, current_level). length current_level)")
  show "wf (measure (\<lambda>(levels, current_level). length current_level))" by simp
next
  fix levels :: "cluster list list list" and current_level next_level :: "cluster list list"
  assume ne: "current_level \<noteq> []"
    and step: "group_cluster_groups current_level = Inr next_level"
  have "next_level = [] \<or> length next_level < length current_level"
    using step
    by (auto simp: group_cluster_groups_def and_then_def Let_def split: if_splits sum.splits)
  with ne have "length next_level < length current_level" by auto
  then show "((levels @ [current_level], next_level), (levels, current_level))
              \<in> measure (\<lambda>(levels, current_level). length current_level)"
    by simp
qed

declare levels_loop.simps [simp del]

definition group_similar_clusters :: "cluster list \<Rightarrow> error + cluster list list list" where
  "group_similar_clusters clusters =
     and_then (centroids_of clusters) (\<lambda>centroids.
     and_then (np_array centroids) (\<lambda>arr.
       let groups = fst (similar_outer arr clusters [0..<length clusters] ([], {}))
       in levels_loop [] groups))"


subsection \<open>\<open>_build_cluster_hierarchy\<close>\<close>

text \<open>\<open>str(n)\<close> for a natural number, as used by the f-strings.\<close>

definition digit_char :: "nat \<Rightarrow> char" where
  "digit_char d = ''0123456789'' ! d"

fun str_nat :: "nat \<Rightarrow> string" where
  "str_nat n = (if n < 10 then [digit_char n] else str_nat (n div 10) @ [digit_char (n mod 10)])"

declare str_nat.simps [simp del]

text \<open>
  A node of the hierarchy, and the hierarchy: a dictionary from identifiers to nodes, kept
  as an association list in insertion order (\<open>len(hierarchy)\<close> is its length).
\<close>

record node =
  n_id :: ident
  n_label :: string
  n_children :: "ident list"
  n_level :: nat
  n_size :: nat

type_synonym hierarchy = "(ident \<times> node) list"

text \<open>
  The body of the inner loop: build \<open>parent_node\<close>, store it under its id, and append
  its id to the children of the root (\<open>hierarchy['root']\<close> is there from the start).
\<close>

definition add_parent_node :: "nat \<Rightarrow> hierarchy \<Rightarrow> cluster list \<Rightarrow> hierarchy" where
  "add_parent_node level hierarchy group_clusters =
     (let parent_node =
            \<lparr>n_id = LevelId level (length hierarchy),
             n_label = ''Group '' @ str_nat (length hierarchy),
             n_children = map c_id group_clusters,
             n_level = level,
             n_size = sum_list (map c_size group_clusters)\<rparr>
      in AList.map_entry RootId
           (\<lambda>root. root\<lparr>n_children := n_children root @ [n_id parent_node]\<rparr>)
           (AList.update (n_id parent_node) parent_node hierarchy))"

text \<open>\<open>for level, group in enumerate(cluster_groups, 1): for group_clusters in group:\<close>\<close>

fun add_levels :: "nat \<Rightarrow> cluster list list list \<Rightarrow> hierarchy \<Rightarrow> hierarchy" where
  "add_levels level [] hierarchy = hierarchy"
| "add_levels level (grp # rest) hierarchy =
     add_levels (Suc level) rest (foldl (add_parent_node level) hierarchy grp)"

definition root_node :: "cluster list \<Rightarrow> node" where
  "root_node clusters =
     \<lparr>n_id = RootId, n_label = ''All Keywords'', n_children = [], n_level = 0,
      n_size = sum_list (map c_size clusters)\<rparr>"

definition build_cluster_hierarchy :: "cluster list \<Rightarrow> error + hierarchy" where
  "build_cluster_hierarchy clusters =
     and_then (group_similar_clusters clusters) (\<lambda>cluster_groups.
       Inr (add_levels 1 cluster_groups [(RootId, root_node clusters)]))"

subsection \<open>Predicates on hierarchies\<close>

text \<open>
  The parents of an identifier: the keys of the nodes that list it among their children.
\<close>

definition parents :: "hierarchy \<Rightarrow> ident \<Rightarrow> ident list" where
  "parents h k = map fst (filter (\<lambda>p. k \<in> set (n_children (snd p))) h)"

definition is_uuid :: "ident \<Rightarrow> bool" where
  "is_uuid i = (case i of Uuid n \<Rightarrow> True | _ \<Rightarrow> False)"

definition node_levels :: "hierarchy \<Rightarrow> (ident \<times> nat) list" where
  "node_levels h = map (\<lambda>p. (fst p, n_level (snd p))) h"

text \<open>
  What holds of every entry but the root while the hierarchy is built: its key is a
  \<open>LevelId\<close> whose counter is below \<open>bound\<close>, its level is the pass that made it, and its
  children are among \<open>ids\<close>.
\<close>

definition group_node_ok :: "ident set \<Rightarrow> nat \<Rightarrow> ident \<times> node \<Rightarrow> bool" where
  "group_node_ok ids bound p =
     (case fst p of
        LevelId l n \<Rightarrow>
          n < bound \<and> 1 \<le> l \<and> n_level (snd p) = l \<and> n_id (snd p) = fst p
          \<and> set (n_children (snd p)) \<subseteq> ids
      | _ \<Rightarrow> False)"

definition hierarchy_inv :: "ident set \<Rightarrow> nat \<Rightarrow> hierarchy \<Rightarrow> bool" where
  "hierarchy_inv ids sz h =
     (case h of
        [] \<Rightarrow> False
      | p # rest \<Rightarrow>
          fst p = RootId \<and> n_id (snd p) = RootId \<and> n_level (snd p) = 0 \<and> n_size (snd p) = sz
          \<and> n_children (snd p) = map fst rest \<and> distinct (map fst rest)
          \<and> list_all (group_node_ok ids (Suc (length rest))) rest)"

text \<open>
  The groups of all grouping passes in the order of the two loops
  \<open>for level, group in enumerate(cluster_groups, 1): for group_clusters in group:\<close>, each
  with the number of its pass; and the node of the \<open>n\<close>-th entry of the hierarchy for a
  group of pass \<open>level\<close>.
\<close>

definition numbered_groups :: "cluster list list list \<Rightarrow> (nat \<times> cluster list) list" where
  "numbered_groups cluster_groups =
     concat (map (\<lambda>(level, grp). map (Pair level) grp) (enumerate 1 cluster_groups))"

definition group_node :: "nat \<times> nat \<times> cluster list \<Rightarrow> ident \<times> node" where
  "group_node = (\<lambda>(n, level, group_clusters).
     (LevelId level n,
      \<lparr>n_id = LevelId level n, n_label = ''Group '' @ str_nat n,
       n_children = map c_id group_clusters, n_level = level,
       n_size = sum_list (map c_size group_clusters)\<rparr>))"

definition all_within :: "cluster set \<Rightarrow> cluster list list \<Rightarrow> bool" where
  "all_within S groups = list_all (\<lambda>g. set g \<subseteq> S) groups"

section \<open>Sample inputs\<close>

text \<open>Four clusters with two-dimensional centroids, as \<open>_create_cluster_objects\<close> builds them.\<close>

definition sample_cluster_a :: cluster where
  "sample_cluster_a =
     \<lparr>c_id = Uuid 0, c_label = ''Cluster: tools'', c_keywords = [''best seo tools''],
      c_keyword_data = [0], c_centroid = Some [1, 0], c_size = 1, c_density = Some 0,
      c_topic_id = None, c_topic_words = None, c_topic_distribution = None,
      c_sub_topics = None\<rparr>"

definition sample_cluster_b :: cluster where
  "sample_cluster_b =
     \<lparr>c_id = Uuid 1, c_label = ''Cluster: software'', c_keywords = [''top seo software''],
      c_keyword_data = [1], c_centroid = Some [9 / 10, 1 / 10], c_size = 1, c_density = Some 0,
      c_topic_id = None, c_topic_words = None, c_topic_distribution = None,
      c_sub_topics = None\<rparr>"

definition sample_cluster_c :: cluster where
  "sample_cluster_c =
     \<lparr>c_id = Uuid 2, c_label = ''Cluster: tutorial'', c_keywords = [''seo tutorial''],
      c_keyword_data = [2], c_centroid = Some [0, 1], c_size = 1, c_density = Some 0,
      c_topic_id = None, c_topic_words = None, c_topic_distribution = None,
      c_sub_topics = None\<rparr>"

definition sample_cluster_d :: cluster where
  "sample_cluster_d =
     \<lparr>c_id = Uuid 3, c_label = ''Cluster: license'', c_keywords = [''purchase seo license''],
      c_keyword_data = [3], c_centroid = Some [65 / 100, 65 / 100], c_size = 1,
      c_density = Some 0, c_topic_id = None, c_topic_words = None,
      c_topic_distribution = None, c_sub_topics = None\<rparr>"

definition sample_groups :: "cluster list list" where
  "sample_groups = [[sample_cluster_a], [sample_cluster_c], [sample_cluster_d]]"

definition sample_clusters :: "cluster list" where
  "sample_clusters = [sample_cluster_a, sample_cluster_b, sample_cluster_c, sample_cluster_d]"

text \<open>The hierarchy that \<open>_build_cluster_hierarchy\<close> returns for the four sample clusters.\<close>

definition sample_hierarchy :: hierarchy where
  "sample_hierarchy =
     [(RootId,
       \<lparr>n_id = RootId, n_label = ''All Keywords'',
        n_children = [LevelId 1 1, LevelId 1 2, LevelId 1 3, LevelId 2 4, LevelId 2 5],
        n_level = 0, n_size = 4\<rparr>),
      (LevelId 1 1,
       \<lparr>n_id = LevelId 1 1, n_label = ''Group 1'', n_children = [Uuid 0, Uuid 1],
        n_level = 1, n_size = 2\<rparr>),
      (LevelId 1 2,
       \<lparr>n_id = LevelId 1 2, n_label = ''Group 2'', n_children = [Uuid 2],
        n_level = 1, n_size = 1\<rparr>),
      (LevelId 1 3,
       \<lparr>n_id = LevelId 1 3, n_label = ''Group 3'', n_children = [Uuid 3],
        n_level = 1, n_size = 1\<rparr>),
      (LevelId 2 4,
       \<lparr>n_id = LevelId 2 4, n_label = ''Group 4'', n_children = [Uuid 0, Uuid 1, Uuid 3],
        n_level = 2, n_size = 3\<rparr>),
      (LevelId 2 5,
       \<lparr>n_id = LevelId 2 5, n_label = ''Group 5'', n_children = [Uuid 2],
        n_level = 2, n_size = 1\<rparr>)]"

section \<open>The optimal-cluster estimator\<close>

text \<open>
  \<open>np.diff\<close> and \<open>np.argmax\<close> (the first position of the maximum; the array is not empty
  where the model calls it).
\<close>

definition np_diff :: "real list \<Rightarrow> real list" where
  "np_diff xs = map2 (\<lambda>b a. b - a) (tl xs) xs"

fun argmax_from :: "nat \<Rightarrow> real \<Rightarrow> nat \<Rightarrow> real list \<Rightarrow> nat" where
  "argmax_from best_i best i [] = best_i"
| "argmax_from best_i best i (x # xs) =
     (if x > best then argmax_from i x (Suc i) xs else argmax_from best_i best (Suc i) xs)"

definition np_argmax :: "real list \<Rightarrow> nat" where
  "np_argmax xs = (case xs of [] \<Rightarrow> 0 | x # rest \<Rightarrow> argmax_from 0 x 1 rest)"

text \<open>
  \<open>_find_elbow_point\<close>. \<open>np.argmax\<close> of an empty second derivative raises, and the
  handler returns 5. \<open>k_range\<close> is not empty where the estimator calls it.
\<close>

definition find_elbow_point :: "nat list \<Rightarrow> real list \<Rightarrow> nat" where
  "find_elbow_point k_range inertias =
     (let second_derivative = np_diff (np_diff inertias)
      in if second_derivative = [] then 5
         else let elbow_idx = np_argmax second_derivative + 2
              in if elbow_idx < length k_range then k_range ! elbow_idx else last k_range)"

text \<open>
  The loop \<open>for k in k_range\<close> of \<open>_estimate_optimal_clusters\<close>: the inertias and the
  silhouette scores of the trial partitions, or \<open>None\<close> when a library call raises.
\<close>

fun kmeans_trials ::
  "library \<Rightarrow> real list list \<Rightarrow> nat list \<Rightarrow> real list \<times> real list
     \<Rightarrow> (real list \<times> real list) option" where
  "kmeans_trials lib embeddings [] (inertias, silhouette_scores) =
     Some (inertias, silhouette_scores)"
| "kmeans_trials lib embeddings (k # ks) (inertias, silhouette_scores) =
     (case kmeans lib k embeddings of
        None \<Rightarrow> None
      | Some (cluster_labels, inertia) \<Rightarrow>
          (case silhouette_score lib embeddings (map PInt cluster_labels) of
             None \<Rightarrow> None
           | Some s \<Rightarrow>
               kmeans_trials lib embeddings ks (inertias @ [inertia], silhouette_scores @ [s])))"

definition estimate_optimal_clusters :: "library \<Rightarrow> real list list \<Rightarrow> nat" where
  "estimate_optimal_clusters lib embeddings =
     (let max_clusters = min 20 (length embeddings div 5)
      in if max_clusters < 2 then 2
         else
           let k_range = [2..<max_clusters + 1]
           in case kmeans_trials lib embeddings k_range ([], []) of
                None \<Rightarrow> 5
              | Some (inertias, silhouette_scores) \<Rightarrow>
                  let elbow_k = find_elbow_point k_range inertias;
                      best_silhouette_k = k_range ! np_argmax silhouette_scores
                  in min elbow_k best_silhouette_k)"



section \<open>The cluster object builder\<close>

subsection \<open>Python and NumPy helpers\<close>

text \<open>
  \<open>xs[i]\<close> for a Python integer (negative indices count from the end), a list of items
  at given positions (\<open>[xs[i] for i in idx]\<close>, or \<open>xs[idx]\<close> on an array), both raising
  \<open>IndexError\<close> out of range; \<open>np.where(labels == label)[0]\<close>; \<open>np.unique\<close>.
\<close>

definition py_index :: "'a list \<Rightarrow> int \<Rightarrow> error + 'a" where
  "py_index xs i =
     (let n = int (length xs); j = (if i < 0 then n + i else i)
      in if 0 \<le> j \<and> j < n then Inr (xs ! nat j) else Inl IndexError)"

fun take_items :: "'a list \<Rightarrow> nat list \<Rightarrow> error + 'a list" where
  "take_items xs [] = Inr []"
| "take_items xs (i # idx) =
     (if i < length xs then and_then (take_items xs idx) (\<lambda>rest. Inr (xs ! i # rest))
      else Inl IndexError)"

definition indices_where :: "int list \<Rightarrow> int \<Rightarrow> nat list" where
  "indices_where cluster_labels label =
     filter (\<lambda>i. cluster_labels ! i = label) [0..<length cluster_labels]"

definition np_unique :: "int list \<Rightarrow> int list" where
  "np_unique cluster_labels = sort (remdups cluster_labels)"

text \<open>\<open>str.split()\<close> on ASCII whitespace, \<open>sep.join(words)\<close>, and \<open>str(i)\<close> for an integer.\<close>

definition is_space :: "char \<Rightarrow> bool" where
  "is_space c = ((of_char c :: nat) \<in> {9, 10, 11, 12, 13, 28, 29, 30, 31, 32})"

fun split_from :: "string \<Rightarrow> string \<Rightarrow> string list" where
  "split_from cur [] = (if cur = [] then [] else [cur])"
| "split_from cur (c # cs) =
     (if is_space c then (if cur = [] then split_from [] cs else cur # split_from [] cs)
      else split_from (cur @ [c]) cs)"

definition str_split :: "string \<Rightarrow> string list" where
  "str_split s = split_from [] s"

fun join :: "string \<Rightarrow> string list \<Rightarrow> string" where
  "join sep [] = []"
| "join sep [x] = x"
| "join sep (x # y # zs) = x @ sep @ join sep (y # zs)"

definition str_int :: "int \<Rightarrow> string" where
  "str_int i = (if i < 0 then ''-'' @ str_nat (nat (- i)) else str_nat (nat i))"

subsection \<open>\<open>_generate_cluster_label\<close>\<close>

text \<open>
  \<open>word_freq\<close> is a dictionary in insertion order; \<open>sorted(..., reverse=True)\<close> is stable,
  as \<open>sort_key\<close> is. The handler of the source (\<open>"Unnamed Cluster"\<close>) is not reached for
  keywords whose text is a string.
\<close>

definition count_word :: "(string \<times> nat) list \<Rightarrow> string \<Rightarrow> (string \<times> nat) list" where
  "count_word word_freq word =
     (if length word > 3
      then AList.update word (case map_of word_freq word of None \<Rightarrow> 1 | Some c \<Rightarrow> c + 1) word_freq
      else word_freq)"

definition generate_cluster_label :: "keyword list \<Rightarrow> string" where
  "generate_cluster_label cluster_keywords =
     (let kws = map (\<lambda>kw. lower (keyword_text kw)) cluster_keywords;
          word_freq = foldl (\<lambda>wf keyword. foldl count_word wf (str_split keyword)) [] kws;
          common_words = take 3 (sort_key (\<lambda>p. - int (snd p)) word_freq)
      in if common_words \<noteq> [] then ''Cluster: '' @ join '', '' (map fst common_words)
         else ''Cluster '' @ str_nat (length cluster_keywords) @ '' keywords'')"

subsection \<open>\<open>_calculate_cluster_density\<close>\<close>

definition calculate_cluster_density :: "library \<Rightarrow> real list list \<Rightarrow> real" where
  "calculate_cluster_density lib cluster_embeddings =
     (if length cluster_embeddings < 2 then 0
      else
        let distances = map (\<lambda>p. linalg_norm lib (map2 (\<lambda>a b. a - b) (fst p) (snd p)))
                            (unordered_pairs cluster_embeddings)
        in if distances \<noteq> [] then sum_list distances / real (length distances) else 0)"

subsection \<open>\<open>_create_cluster_objects\<close>\<close>

text \<open>
  \<open>kw['cluster_id'] = ...; kw['cluster_label'] = ...\<close> for every keyword of the cluster:
  the dictionaries at the given references are updated in the store.
\<close>

definition assign_cluster :: "ident \<Rightarrow> string \<Rightarrow> keyword \<Rightarrow> keyword" where
  "assign_cluster uid cluster_label kw =
     AList.update ''cluster_label'' (PStr cluster_label)
       (AList.update ''cluster_id'' (PIdent uid) kw)"

definition update_keywords :: "(keyword \<Rightarrow> keyword) \<Rightarrow> nat list \<Rightarrow> keyword list \<Rightarrow> keyword list" where
  "update_keywords f refs st = foldl (\<lambda>s r. s[r := f (s ! r)]) st refs"

text \<open>
  The body of the loop \<open>for label in unique_labels\<close> for a label that is not noise:
  the cluster object of the label, and the store with its keywords updated.
  \<open>keywords\<close> is a list of references.
\<close>

definition cluster_object_for ::
  "library \<Rightarrow> nat list \<Rightarrow> int list \<Rightarrow> real list list \<Rightarrow> int \<Rightarrow> world \<Rightarrow> error + cluster \<times> world" where
  "cluster_object_for lib kw_refs cluster_labels embeddings label w =
     (let cluster_indices = indices_where cluster_labels label in
      and_then (take_items kw_refs cluster_indices) (\<lambda>cluster_keywords.
      and_then (take_items embeddings cluster_indices) (\<lambda>cluster_embeddings.
        let centroid = mean_axis0 cluster_embeddings;
            cluster_label = generate_cluster_label (map (\<lambda>r. store w ! r) cluster_keywords);
            uid = fst (fresh_uuid w);
            w1 = snd (fresh_uuid w);
            cluster_obj =
              \<lparr>c_id = uid,
               c_label = cluster_label,
               c_keywords = map (\<lambda>r. keyword_text (store w ! r)) cluster_keywords,
               c_keyword_data = cluster_keywords,
               c_centroid = Some centroid,
               c_size = length cluster_keywords,
               c_density = Some (calculate_cluster_density lib cluster_embeddings),
               c_topic_id = None, c_topic_words = None, c_topic_distribution = None,
               c_sub_topics = None\<rparr>
        in Inr (cluster_obj,
                w1\<lparr>store := update_keywords (assign_cluster uid cluster_label)
                                 cluster_keywords (store w1)\<rparr>))))"

text \<open>The loop \<open>for label in unique_labels\<close>, which skips the noise label \<open>-1\<close>.\<close>

fun cluster_objects_loop ::
  "library \<Rightarrow> nat list \<Rightarrow> int list \<Rightarrow> real list list \<Rightarrow> int list \<Rightarrow> cluster list \<times> world
     \<Rightarrow> error + cluster list \<times> world" where
  "cluster_objects_loop lib kw_refs cluster_labels embeddings [] (clusters, w) =
     Inr (clusters, w)"
| "cluster_objects_loop lib kw_refs cluster_labels embeddings (label # rest) (clusters, w) =
     (if label = - 1
      then cluster_objects_loop lib kw_refs cluster_labels embeddings rest (clusters, w)
      else and_then (cluster_object_for lib kw_refs cluster_labels embeddings label w)
             (\<lambda>r. cluster_objects_loop lib kw_refs cluster_labels embeddings rest
                     (clusters @ [fst r], snd r)))"

definition create_cluster_objects ::
  "library \<Rightarrow> nat list \<Rightarrow> int list \<Rightarrow> real list list \<Rightarrow> world \<Rightarrow> error + cluster list \<times> world" where
  "create_cluster_objects lib kw_refs cluster_labels embeddings w =
     cluster_objects_loop lib kw_refs cluster_labels embeddings (np_unique cluster_labels) ([], w)"

subsection \<open>\<open>_hierarchical_clustering\<close>\<close>

definition hierarchical_clustering ::
  "library \<Rightarrow> real list list \<Rightarrow> nat list \<Rightarrow> nat option \<Rightarrow> string \<Rightarrow> real option \<Rightarrow> world
     \<Rightarrow> error + cluster list \<times> world" where
  "hierarchical_clustering lib embeddings kw_refs n_clusters linkage distance_threshold w =
     (let n = (case n_clusters of
                 None \<Rightarrow> estimate_optimal_clusters lib embeddings
               | Some n \<Rightarrow> n)
      in case agglomerative lib n linkage distance_threshold embeddings of
           None \<Rightarrow> Inl (LibraryError ''AgglomerativeClustering'')
         | Some cluster_labels \<Rightarrow> create_cluster_objects lib kw_refs cluster_labels embeddings w)"

section \<open>Topic-modelling clusters and the hybrid refiner\<close>

subsection \<open>\<open>_create_topic_clusters\<close>\<close>

text \<open>
  \<open>row.argsort()[-10:][::-1]\<close>: the last ten positions of the argsort, reversed.
\<close>

definition top_indices :: "library \<Rightarrow> real list \<Rightarrow> nat list" where
  "top_indices lib row = rev (drop (length (argsort lib row) - 10) (argsort lib row))"

text \<open>
  \<open>kw['cluster_id'] = ...; kw['cluster_label'] = ...; kw['topic_id'] = label\<close>
\<close>

definition assign_topic :: "ident \<Rightarrow> string \<Rightarrow> int \<Rightarrow> keyword \<Rightarrow> keyword" where
  "assign_topic uid cluster_label label kw =
     AList.update ''topic_id'' (PInt label)
       (AList.update ''cluster_label'' (PStr cluster_label)
          (AList.update ''cluster_id'' (PIdent uid) kw))"

text \<open>
  The body of the loop \<open>for label in unique_labels\<close>. \<open>components\<close> is
  \<open>topic_model.components_\<close>.
\<close>

definition topic_cluster_for ::
  "library \<Rightarrow> nat list \<Rightarrow> int list \<Rightarrow> real list list \<Rightarrow> string list \<Rightarrow> real list list
     \<Rightarrow> int \<Rightarrow> world \<Rightarrow> error + cluster \<times> world" where
  "topic_cluster_for lib kw_refs cluster_labels topic_distributions feature_names components
     label w =
     (let cluster_indices = indices_where cluster_labels label in
      and_then (take_items kw_refs cluster_indices) (\<lambda>cluster_keywords.
      and_then (take_items topic_distributions cluster_indices) (\<lambda>rows.
      and_then (py_index components label) (\<lambda>component.
      and_then (take_items feature_names (top_indices lib component)) (\<lambda>top_words.
        let cluster_topic_dist = mean_axis0 rows;
            uid = fst (fresh_uuid w);
            w1 = snd (fresh_uuid w);
            cluster_obj =
              \<lparr>c_id = uid,
               c_label = ''Topic '' @ str_int (label + 1) @ '': '' @ join '', '' (take 3 top_words),
               c_keywords = map (\<lambda>r. keyword_text (store w ! r)) cluster_keywords,
               c_keyword_data = cluster_keywords,
               c_centroid = None,
               c_size = length cluster_keywords,
               c_density = None,
               c_topic_id = Some label,
               c_topic_words = Some top_words,
               c_topic_distribution = Some cluster_topic_dist,
               c_sub_topics = None\<rparr>
        in Inr (cluster_obj,
                w1\<lparr>store := update_keywords (assign_topic uid (c_label cluster_obj) label)
                                 cluster_keywords (store w1)\<rparr>))))))"

fun topic_clusters_loop ::
  "library \<Rightarrow> nat list \<Rightarrow> int list \<Rightarrow> real list list \<Rightarrow> string list \<Rightarrow> real list list
     \<Rightarrow> int list \<Rightarrow> cluster list \<times> world \<Rightarrow> error + cluster list \<times> world" where
  "topic_clusters_loop lib kw_refs cluster_labels topic_distributions feature_names components
     [] (clusters, w) = Inr (clusters, w)"
| "topic_clusters_loop lib kw_refs cluster_labels topic_distributions feature_names components
     (label # rest) (clusters, w) =
     and_then (topic_cluster_for lib kw_refs cluster_labels topic_distributions feature_names
                 components label w)
       (\<lambda>r. topic_clusters_loop lib kw_refs cluster_labels topic_distributions feature_names
               components rest (clusters @ [fst r], snd r))"

definition create_topic_clusters ::
  "library \<Rightarrow> nat list \<Rightarrow> int list \<Rightarrow> real list list \<Rightarrow> string list \<Rightarrow> real list list \<Rightarrow> world
     \<Rightarrow> error + cluster list \<times> world" where
  "create_topic_clusters lib kw_refs cluster_labels topic_distributions feature_names components w =
     topic_clusters_loop lib kw_refs cluster_labels topic_distributions feature_names components
       (np_unique cluster_labels) ([], w)"

subsection \<open>\<open>_topic_modeling_clustering\<close>\<close>

text \<open>
  \<open>np.argmax(topic_distributions, axis=1)\<close> raises on rows without columns.
\<close>

definition argmax_axis1 :: "real list list \<Rightarrow> error + int list" where
  "argmax_axis1 rows =
     (if list_ex (\<lambda>r. r = []) rows then Inl (LibraryError ''argmax of an empty sequence'')
      else Inr (map (\<lambda>r. int (np_argmax r)) rows))"

definition topic_modeling_clustering ::
  "library \<Rightarrow> string list \<Rightarrow> nat list \<Rightarrow> nat \<Rightarrow> string \<Rightarrow> world \<Rightarrow> error + cluster list \<times> world" where
  "topic_modeling_clustering lib keyword_texts kw_refs n_topics method w =
     (case tfidf lib keyword_texts of
        None \<Rightarrow> Inl (LibraryError ''TfidfVectorizer'')
      | Some (tfidf_matrix, feature_names) \<Rightarrow>
          (case (if method = ''lda'' then lda lib n_topics tfidf_matrix
                 else nmf lib n_topics tfidf_matrix) of
             None \<Rightarrow> Inl (LibraryError ''fit_transform'')
           | Some (topic_distributions, components) \<Rightarrow>
               and_then (argmax_axis1 topic_distributions) (\<lambda>cluster_labels.
                 create_topic_clusters lib kw_refs cluster_labels topic_distributions
                   feature_names components w)))"

subsection \<open>\<open>_refine_cluster_with_topics\<close> and \<open>_hybrid_clustering\<close>\<close>

text \<open>
  The refined cluster is a copy of the cluster with the key \<open>sub_topics\<close>. The handler of
  the source, which returns the cluster as it was, guards the reads of
  \<open>topic_cluster['id']\<close>, \<open>['label']\<close> and \<open>['keywords']\<close>; every cluster has these keys, so
  the handler is not reached.
\<close>

definition sub_topic_of :: "cluster \<Rightarrow> sub_topic" where
  "sub_topic_of topic_cluster =
     \<lparr>st_id = c_id topic_cluster,
      st_label = c_label topic_cluster,
      st_keywords = c_keywords topic_cluster,
      st_topic_words = (case c_topic_words topic_cluster of None \<Rightarrow> [] | Some ws \<Rightarrow> ws)\<rparr>"

definition refine_cluster_with_topics :: "cluster \<Rightarrow> cluster list \<Rightarrow> cluster" where
  "refine_cluster_with_topics cluster topic_clusters =
     cluster\<lparr>c_sub_topics := Some (map sub_topic_of topic_clusters)\<rparr>"

text \<open>
  \<open>[kw for kw in keywords if kw.get('cluster_id') == cluster['id']]\<close>, as references.
\<close>

definition members_of :: "world \<Rightarrow> nat list \<Rightarrow> cluster \<Rightarrow> nat list" where
  "members_of w kw_refs cluster =
     filter (\<lambda>r. map_of (store w ! r) ''cluster_id'' = Some (PIdent (c_id cluster))) kw_refs"

text \<open>
  The body of the loop \<open>for cluster in semantic_clusters\<close>: the cluster to append to
  \<open>refined_clusters\<close>, and the store.
\<close>

definition refine_or_pass ::
  "library \<Rightarrow> nat list \<Rightarrow> cluster \<Rightarrow> world \<Rightarrow> error + cluster \<times> world" where
  "refine_or_pass lib kw_refs cluster w =
     (let cluster_keywords = members_of w kw_refs cluster;
          cluster_texts = map (\<lambda>r. keyword_text (store w ! r)) cluster_keywords
      in if length cluster_texts > 5
         then (case encode lib cluster_texts of
                 None \<Rightarrow> Inl (LibraryError ''encode'')
               | Some cluster_embeddings \<Rightarrow>
                   and_then (topic_modeling_clustering lib cluster_texts cluster_keywords
                               (min 3 (length cluster_texts div 2)) ''lda'' w)
                     (\<lambda>r. Inr (refine_cluster_with_topics cluster (fst r), snd r)))
         else Inr (cluster, w))"

fun hybrid_loop ::
  "library \<Rightarrow> nat list \<Rightarrow> cluster list \<Rightarrow> cluster list \<times> world \<Rightarrow> error + cluster list \<times> world" where
  "hybrid_loop lib kw_refs [] (refined_clusters, w) = Inr (refined_clusters, w)"
| "hybrid_loop lib kw_refs (cluster # rest) (refined_clusters, w) =
     and_then (refine_or_pass lib kw_refs cluster w)
       (\<lambda>r. hybrid_loop lib kw_refs rest (refined_clusters @ [fst r], snd r))"

definition hybrid_clustering ::
  "library \<Rightarrow> real list list \<Rightarrow> string list \<Rightarrow> nat list \<Rightarrow> nat option \<Rightarrow> world
     \<Rightarrow> error + cluster list \<times> world" where
  "hybrid_clustering lib embeddings keyword_texts kw_refs n_clusters w =
     and_then (hierarchical_clustering lib embeddings kw_refs n_clusters ''ward'' None w)
       (\<lambda>r. hybrid_loop lib kw_refs (fst r) ([], snd r))"

section \<open>The topic model, the metrics and the engine's entry point\<close>

subsection \<open>\<open>_generate_topic_model\<close>\<close>

record topic =
  t_id :: nat
  t_words :: "string list"
  t_weights :: "real list"
  t_coherence :: real

text \<open>
  The dataclass \<open>TopicModel\<close>, without \<open>created_at\<close>. \<open>np.mean\<close> of an empty list is
  \<open>nan\<close>, which is \<open>None\<close> here.
\<close>

record topic_model =
  tm_id :: ident
  tm_topics :: "topic list"
  tm_topic_keywords :: "(nat \<times> string list) list"
  tm_coherence_score :: "real option"
  tm_perplexity :: real

definition np_mean :: "real list \<Rightarrow> real option" where
  "np_mean xs = (if xs = [] then None else Some (sum_list xs / real (length xs)))"

text \<open>The loop \<open>for topic_idx, topic in enumerate(lda.components_)\<close>.\<close>

fun extract_topics ::
  "library \<Rightarrow> string list \<Rightarrow> string list \<Rightarrow> nat \<Rightarrow> real list list \<Rightarrow> error + topic list" where
  "extract_topics lib feature_names keyword_texts topic_idx [] = Inr []"
| "extract_topics lib feature_names keyword_texts topic_idx (row # rows) =
     (let top_words_idx = top_indices lib row in
      and_then (take_items feature_names top_words_idx) (\<lambda>top_words.
      and_then (take_items row top_words_idx) (\<lambda>weights.
      and_then (extract_topics lib feature_names keyword_texts (Suc topic_idx) rows) (\<lambda>rest.
        Inr (\<lparr>t_id = topic_idx, t_words = top_words, t_weights = weights,
              t_coherence = calculate_topic_coherence top_words keyword_texts\<rparr> # rest)))))"

definition generate_topic_model ::
  "library \<Rightarrow> string list \<Rightarrow> world \<Rightarrow> error + topic_model \<times> world" where
  "generate_topic_model lib keyword_texts w =
     (case tfidf lib keyword_texts of
        None \<Rightarrow> Inl (LibraryError ''TfidfVectorizer'')
      | Some (tfidf_matrix, feature_names) \<Rightarrow>
          let n_topics = min 10 (length keyword_texts div 10)
          in case lda lib n_topics tfidf_matrix of
               None \<Rightarrow> Inl (LibraryError ''fit_transform'')
             | Some (topic_distributions, components) \<Rightarrow>
                 and_then (extract_topics lib feature_names keyword_texts 0 components)
                   (\<lambda>topics.
                      case lda_perplexity lib n_topics tfidf_matrix of
                        None \<Rightarrow> Inl (LibraryError ''perplexity'')
                      | Some perplexity \<Rightarrow>
                          Inr (\<lparr>tm_id = fst (fresh_uuid w),
                                tm_topics = topics,
                                tm_topic_keywords = map (\<lambda>t. (t_id t, t_words t)) topics,
                                tm_coherence_score = np_mean (map t_coherence topics),
                                tm_perplexity = perplexity\<rparr>,
                               snd (fresh_uuid w))))"

subsection \<open>\<open>_calculate_cluster_metrics\<close>\<close>

record cluster_metrics =
  m_silhouette_score :: real
  m_calinski_harabasz_score :: real
  m_total_clusters :: nat
  m_total_keywords :: nat
  m_avg_cluster_size :: real
  m_cluster_sizes :: "nat list"

text \<open>
  The loop \<open>for cluster in clusters\<close>: the positions, within the cluster's own
  \<open>keyword_data\<close>, of the keywords whose \<open>cluster_id\<close> is the cluster's id select rows of
  \<open>embeddings\<close>.
\<close>

fun metrics_loop ::
  "world \<Rightarrow> real list list \<Rightarrow> cluster list \<Rightarrow> real list list \<times> pyval list
     \<Rightarrow> error + real list list \<times> pyval list" where
  "metrics_loop w embeddings [] (cluster_embeddings, cluster_labels) =
     Inr (cluster_embeddings, cluster_labels)"
| "metrics_loop w embeddings (cluster # rest) (cluster_embeddings, cluster_labels) =
     (let cluster_keywords = c_keyword_data cluster;
          cluster_indices =
            filter (\<lambda>i. map_of (store w ! (cluster_keywords ! i)) ''cluster_id''
                          = Some (PIdent (c_id cluster)))
                   [0..<length cluster_keywords]
      in and_then (take_items embeddings cluster_indices) (\<lambda>cluster_emb.
           metrics_loop w embeddings rest
             (cluster_embeddings @ cluster_emb,
              cluster_labels @ replicate (length cluster_emb) (PIdent (c_id cluster)))))"

definition calculate_cluster_metrics ::
  "library \<Rightarrow> real list list \<Rightarrow> cluster list \<Rightarrow> world \<Rightarrow> error + cluster_metrics" where
  "calculate_cluster_metrics lib embeddings clusters w =
     and_then (metrics_loop w embeddings clusters ([], [])) (\<lambda>r.
       let cluster_embeddings = fst r; cluster_labels = snd r in
       and_then (if length (remdups cluster_labels) > 1
                 then (case silhouette_score lib cluster_embeddings cluster_labels of
                         None \<Rightarrow> Inl (LibraryError ''silhouette_score'') | Some s \<Rightarrow> Inr s)
                 else Inr 0) (\<lambda>silhouette_avg.
       and_then (if length (remdups cluster_labels) > 1
                 then (case calinski_harabasz_score lib cluster_embeddings cluster_labels of
                         None \<Rightarrow> Inl (LibraryError ''calinski_harabasz_score'') | Some s \<Rightarrow> Inr s)
                 else Inr 0) (\<lambda>calinski_harabasz.
         Inr \<lparr>m_silhouette_score = silhouette_avg,
              m_calinski_harabasz_score = calinski_harabasz,
              m_total_clusters = length clusters,
              m_total_keywords = length cluster_embeddings,
              m_avg_cluster_size =
                (if clusters \<noteq> [] then real (length cluster_embeddings) / real (length clusters)
                 else 0),
              m_cluster_sizes = map c_size clusters\<rparr>)))"

subsection \<open>\<open>perform_advanced_clustering\<close>\<close>

text \<open>
  The keyword arguments \<open>**kwargs\<close>: the four that the clustering procedures know, each
  \<open>None\<close> when it is not passed, and the names of any others. A procedure that is passed
  a keyword argument it does not have raises \<open>TypeError\<close>.
\<close>

record kwargs =
  kw_n_clusters :: "nat option"
  kw_linkage :: "string option"
  kw_distance_threshold :: "real option"
  kw_n_topics :: "nat option"
  kw_other :: "string list"

record clustering_result =
  r_clusters :: "cluster list"
  r_hierarchy :: hierarchy
  r_topic_model :: topic_model
  r_metrics :: cluster_metrics
  r_method :: string
  r_parameters :: kwargs

text \<open>
  The branch \<open>if method == 'hierarchical': ... elif ... else: raise ValueError(...)\<close>.
  The keywords passed on are all the keywords of the batch.
\<close>

definition dispatch_clustering ::
  "library \<Rightarrow> string \<Rightarrow> kwargs \<Rightarrow> real list list \<Rightarrow> string list \<Rightarrow> world
     \<Rightarrow> error + cluster list \<times> world" where
  "dispatch_clustering lib method kwargs embeddings keyword_texts w =
     (let kw_refs = [0..<length (store w)] in
      if method = ''hierarchical'' then
        (if kw_n_topics kwargs \<noteq> None \<or> kw_other kwargs \<noteq> []
         then Inl (TypeError ''_hierarchical_clustering() got an unexpected keyword argument'')
         else hierarchical_clustering lib embeddings kw_refs (kw_n_clusters kwargs)
                (case kw_linkage kwargs of None \<Rightarrow> ''ward'' | Some l \<Rightarrow> l)
                (kw_distance_threshold kwargs) w)
      else if method = ''topic_modeling'' then
        (if kw_n_clusters kwargs \<noteq> None \<or> kw_linkage kwargs \<noteq> None
            \<or> kw_distance_threshold kwargs \<noteq> None \<or> kw_other kwargs \<noteq> []
         then Inl (TypeError ''_topic_modeling_clustering() got an unexpected keyword argument'')
         else topic_modeling_clustering lib keyword_texts kw_refs
                (case kw_n_topics kwargs of None \<Rightarrow> 10 | Some n \<Rightarrow> n) ''lda'' w)
      else if method = ''hybrid'' then
        (if kw_linkage kwargs \<noteq> None \<or> kw_distance_threshold kwargs \<noteq> None
            \<or> kw_n_topics kwargs \<noteq> None \<or> kw_other kwargs \<noteq> []
         then Inl (TypeError ''_hybrid_clustering() got an unexpected keyword argument'')
         else hybrid_clustering lib embeddings keyword_texts kw_refs (kw_n_clusters kwargs) w)
      else Inl (ValueError (''Unsupported clustering method: '' @ method)))"

definition perform_advanced_clustering ::
  "library \<Rightarrow> string \<Rightarrow> kwargs \<Rightarrow> world \<Rightarrow> error + clustering_result \<times> world" where
  "perform_advanced_clustering lib method kwargs w =
     (let keyword_texts = map keyword_text (store w) in
      case encode lib keyword_texts of
        None \<Rightarrow> Inl (LibraryError ''encode'')
      | Some embeddings \<Rightarrow>
          and_then (dispatch_clustering lib method kwargs embeddings keyword_texts w) (\<lambda>c.
          and_then (build_cluster_hierarchy (fst c)) (\<lambda>hierarchy.
          and_then (generate_topic_model lib keyword_texts (snd c)) (\<lambda>t.
          and_then (calculate_cluster_metrics lib embeddings (fst c) (snd t)) (\<lambda>metrics.
            Inr (\<lparr>r_clusters = fst c, r_hierarchy = hierarchy, r_topic_model = fst t,
                  r_metrics = metrics, r_method = method, r_parameters = kwargs\<rparr>,
                 snd t))))))"

section \<open>A sample library and sample batches\<close>

text \<open>
  A deterministic stand-in for the libraries, used to run the model on concrete input.
  Embeddings have one dimension (the length of the text; the norm of a one-dimensional
  vector is its absolute value), the agglomerative and k-means labels go round the
  clusters, the inertia of \<open>k\<close> clusters is \<open>200 / k\<close>, the silhouette score is highest for
  three distinct labels, the vocabulary has two terms, a decomposition into no topics
  raises, and the dominant topic of a text is its length modulo the number of topics, so
  that equal texts have equal topics.
\<close>

definition sample_library :: library where
  "sample_library =
     \<lparr>encode = (\<lambda>texts. Some (map (\<lambda>t. [real (length t)]) texts)),
      agglomerative = (\<lambda>n linkage distance_threshold embeddings.
         Some (map (\<lambda>i. int (i mod n)) [0..<length embeddings])),
      kmeans = (\<lambda>k embeddings.
         Some (map (\<lambda>i. int (i mod k)) [0..<length embeddings], 200 / real k)),
      silhouette_score = (\<lambda>embeddings labels.
         Some (1 / (1 + \<bar>real (length (remdups labels)) - 3\<bar>))),
      calinski_harabasz_score = (\<lambda>embeddings labels. Some 1),
      tfidf = (\<lambda>texts. Some (map (\<lambda>t. [real (length t), 1]) texts, [''seo'', ''tools''])),
      lda = (\<lambda>n matrix.
         if n = 0 then None
         else Some (map (\<lambda>row. map (\<lambda>j. if j = nat \<lfloor>hd row\<rfloor> mod n then 1 else 0) [0..<n])
                        matrix,
                    replicate n [2, 1])),
      nmf = (\<lambda>n matrix.
         if n = 0 then None
         else Some (map (\<lambda>row. map (\<lambda>j. if j = nat \<lfloor>hd row\<rfloor> mod n then 1 else 0) [0..<n])
                        matrix,
                    replicate n [2, 1])),
      lda_perplexity = (\<lambda>n matrix. Some 1),
      argsort = (\<lambda>row. sort_key (\<lambda>i. row ! i) [0..<length row]),
      linalg_norm = (\<lambda>v. \<bar>sum_list v\<bar>),
      hdbscan = (\<lambda>embeddings. Some (map (\<lambda>i. int (i div 2)) [0..<length embeddings])),
      round_to = (\<lambda>x ndigits. real_of_int (round (x * 10 ^ ndigits)) / 10 ^ ndigits)\<rparr>"



text \<open>Ten keyword texts, and the batch that holds them.\<close>

definition sample_texts :: "string list" where
  "sample_texts =
     [''best seo tools'', ''top seo software'', ''how to do seo'', ''seo tutorial'',
      ''buy seo tool'', ''purchase seo license'', ''seo tools free'', ''seo audit tools'',
      ''keyword research'', ''link building tools'']"

definition batch_of :: "string list \<Rightarrow> world" where
  "batch_of texts = \<lparr>store = map (\<lambda>t. [(''keyword'', PStr t)]) texts, next_uuid = 0\<rparr>"

definition sample_topic_model :: topic_model where
  "sample_topic_model =
     \<lparr>tm_id = Uuid 0,
      tm_topics = [\<lparr>t_id = 0, t_words = [''seo'', ''tools''], t_weights = [2, 1],
                    t_coherence = 3 / 10\<rparr>],
      tm_topic_keywords = [(0, [''seo'', ''tools''])],
      tm_coherence_score = Some (3 / 10),
      tm_perplexity = 1\<rparr>"

section \<open>Predicates on keyword dictionaries\<close>

text \<open>
  Two keyword dictionaries agree outside the keys \<open>ks\<close>: without the entries of these
  keys they are the same association list.
\<close>

definition unchanged_except :: "string list \<Rightarrow> keyword \<Rightarrow> keyword \<Rightarrow> bool" where
  "unchanged_except ks kw kw' =
     (filter (\<lambda>p. fst p \<notin> set ks) kw' = filter (\<lambda>p. fst p \<notin> set ks) kw)"

text \<open>
  A run keeps every field outside \<open>ks\<close> of every keyword of the store: when it returns,
  the store has the same number of keywords, each unchanged outside \<open>ks\<close>.
\<close>

definition keeps_other_fields :: "string list \<Rightarrow> world \<Rightarrow> error + 'a \<times> world \<Rightarrow> bool" where
  "keeps_other_fields ks w r =
     (case r of
        Inl e \<Rightarrow> True
      | Inr x \<Rightarrow> list_all2 (unchanged_except ks) (store w) (store (snd x)))"

text \<open>The value of a key of the keyword at a position of the store after a run.\<close>

definition field_after :: "nat \<Rightarrow> string \<Rightarrow> error + 'a \<times> world \<Rightarrow> error + pyval option" where
  "field_after i k r = map_sum id (\<lambda>x. map_of (store (snd x) ! i) k) r"

text \<open>No keyword arguments.\<close>

definition no_kwargs :: kwargs where
  "no_kwargs = \<lparr>kw_n_clusters = None, kw_linkage = None, kw_distance_threshold = None,
                kw_n_topics = None, kw_other = []\<rparr>"

text \<open>A batch of ten equal keywords, and the keyword arguments \<open>n_clusters=1\<close>.\<close>

definition equal_texts :: "string list" where
  "equal_texts = replicate 10 ''seo tools''"

definition one_cluster :: kwargs where
  "one_cluster = no_kwargs\<lparr>kw_n_clusters := Some 1\<rparr>"

section \<open>Predicates on results\<close>

text \<open>
  A result that is the error of the engine's own statement \<open>raise ValueError(...)\<close>,
  the only statement of the model that builds a \<open>ValueError\<close>. A \<open>ValueError\<close> that a
  library raises (an empty vocabulary, a decomposition into no topics) is a
  \<open>LibraryError\<close> in the model, and this predicate is false of it.
\<close>

definition own_value_error :: "error + 'a \<Rightarrow> bool" where
  "own_value_error r = (case r of Inl (ValueError msg) \<Rightarrow> True | _ \<Rightarrow> False)"

text \<open>The message of the engine's error for a strategy it does not have.\<close>

definition unsupported :: "string \<Rightarrow> error" where
  "unsupported strategy = ValueError (''Unsupported clustering method: '' @ strategy)"

section \<open>Predicates on the hybrid refiner\<close>

text \<open>
  The texts of the keywords at the given references; the references are positions of
  the store; a refined cluster is the cluster itself or the cluster with sub-topics.
\<close>

definition texts_of :: "world \<Rightarrow> nat list \<Rightarrow> string list" where
  "texts_of w refs = map (\<lambda>r. keyword_text (store w ! r)) refs"




text \<open>
  A vectoriser that raises on a batch of the stop word \<open>the\<close> alone (an empty
  vocabulary), a batch of twelve keywords that alternates between \<open>the\<close> and
  \<open>seo tools\<close>, and the keyword arguments \<open>n_clusters=2\<close>.
\<close>

definition stop_word_library :: library where
  "stop_word_library =
     sample_library\<lparr>tfidf := (\<lambda>texts. if list_all (\<lambda>t. t = ''the'') texts then None
                                       else tfidf sample_library texts)\<rparr>"

definition alternating_texts :: "string list" where
  "alternating_texts = concat (replicate 6 [''the'', ''seo tools''])"

definition two_clusters :: kwargs where
  "two_clusters = no_kwargs\<lparr>kw_n_clusters := Some 2\<rparr>"

text \<open>The sizes of the clusters of a result, and the embeddings of the sample batches.\<close>

definition cluster_sizes :: "error + cluster list \<times> world \<Rightarrow> error + nat list" where
  "cluster_sizes r = map_sum id (\<lambda>x. map c_size (fst x)) r"

definition equal_embeddings :: "real list list" where
  "equal_embeddings = replicate 10 [9]"

definition alternating_embeddings :: "real list list" where
  "alternating_embeddings = concat (replicate 6 [[3], [9]])"

text \<open>
  The batch of ten equal keywords after the hierarchical step with \<open>n_clusters=1\<close>: its
  one cluster and its store; and the same after the refinement of the cluster.
\<close>

definition semantic_equal_cluster :: cluster where
  "semantic_equal_cluster =
     \<lparr>c_id = Uuid 0, c_label = ''Cluster: tools'', c_keywords = replicate 10 ''seo tools'',
      c_keyword_data = [0, 1, 2, 3, 4, 5, 6, 7, 8, 9], c_centroid = Some [9], c_size = 10,
      c_density = Some 0, c_topic_id = None, c_topic_words = None,
      c_topic_distribution = None, c_sub_topics = None\<rparr>"

definition semantic_equal_world :: world where
  "semantic_equal_world =
     \<lparr>store = replicate 10 [(''keyword'', PStr ''seo tools''),
                             (''cluster_id'', PIdent (Uuid 0)),
                             (''cluster_label'', PStr ''Cluster: tools'')],
      next_uuid = 1\<rparr>"



text \<open>
  The alternating batch after the hierarchical step with \<open>n_clusters=2\<close>: the cluster of
  the stop words, the cluster of \<open>seo tools\<close>, and the store.
\<close>

definition stop_word_cluster :: cluster where
  "stop_word_cluster =
     \<lparr>c_id = Uuid 0, c_label = ''Cluster 6 keywords'', c_keywords = replicate 6 ''the'',
      c_keyword_data = [0, 2, 4, 6, 8, 10], c_centroid = Some [3], c_size = 6,
      c_density = Some 0, c_topic_id = None, c_topic_words = None,
      c_topic_distribution = None, c_sub_topics = None\<rparr>"

definition seo_tools_cluster :: cluster where
  "seo_tools_cluster =
     \<lparr>c_id = Uuid 1, c_label = ''Cluster: tools'', c_keywords = replicate 6 ''seo tools'',
      c_keyword_data = [1, 3, 5, 7, 9, 11], c_centroid = Some [9], c_size = 6,
      c_density = Some 0, c_topic_id = None, c_topic_words = None,
      c_topic_distribution = None, c_sub_topics = None\<rparr>"

definition semantic_alternating_world :: world where
  "semantic_alternating_world =
     \<lparr>store = concat (replicate 6
                [[(''keyword'', PStr ''the''), (''cluster_id'', PIdent (Uuid 0)),
                  (''cluster_label'', PStr ''Cluster 6 keywords'')],
                 [(''keyword'', PStr ''seo tools''), (''cluster_id'', PIdent (Uuid 1)),
                  (''cluster_label'', PStr ''Cluster: tools'')]]),
      next_uuid = 2\<rparr>"

text \<open>
  The store of the alternating batch between the two passes of the loop of
  \<open>_create_cluster_objects\<close>, and the cluster of \<open>seo tools\<close> and the store after the
  refinement of that cluster.
\<close>

definition alternating_mid_world :: world where
  "alternating_mid_world =
     \<lparr>store = concat (replicate 6
                [[(''keyword'', PStr ''the''), (''cluster_id'', PIdent (Uuid 0)),
                  (''cluster_label'', PStr ''Cluster 6 keywords'')],
                 [(''keyword'', PStr ''seo tools'')]]),
      next_uuid = 1\<rparr>"

definition refined_seo_tools_cluster :: cluster where
  "refined_seo_tools_cluster =
     seo_tools_cluster
       \<lparr>c_sub_topics :=
          Some [\<lparr>st_id = Uuid 2, st_label = ''Topic 1: seo, tools'',
                  st_keywords = replicate 6 ''seo tools'',
                  st_topic_words = [''seo'', ''tools'']\<rparr>]\<rparr>"

definition refined_alternating_world :: world where
  "refined_alternating_world =
     \<lparr>store = concat (replicate 6
                [[(''keyword'', PStr ''the''), (''cluster_id'', PIdent (Uuid 0)),
                  (''cluster_label'', PStr ''Cluster 6 keywords'')],
                 [(''keyword'', PStr ''seo tools''), (''cluster_id'', PIdent (Uuid 2)),
                  (''cluster_label'', PStr ''Topic 1: seo, tools''),
                  (''topic_id'', PInt 0)]]),
      next_uuid = 3\<rparr>"

section \<open>The cluster worker (\<open>cluster_worker.py\<close>)\<close>

text \<open>
  The worker reads the keyword dictionaries and does not write them: a batch is a list
  of dictionaries. Its clusters hold the keyword dictionaries themselves.
\<close>

record cw_metrics =
  cm_avg_search_volume :: real
  cm_avg_difficulty :: real
  cm_total_keywords :: nat
  cm_intent_distribution :: "(pyval \<times> nat) list"

record cw_cluster =
  cw_id :: ident
  cw_label :: string
  cw_keywords :: "keyword list"
  cw_centroid :: "real list"
  cw_metrics :: "cw_metrics option"

record cw_metadata =
  md_total_clusters :: nat
  md_avg_cluster_size :: real
  md_silhouette_score :: real

record cw_result =
  res_clusters :: "cw_cluster list"
  res_metadata :: cw_metadata

text \<open>
  \<open>{'clusters': [], 'metadata': {'total_clusters': 0, 'avg_cluster_size': 0,
  'silhouette_score': 0}}\<close>
\<close>

definition empty_result :: cw_result where
  "empty_result =
     \<lparr>res_clusters = [],
      res_metadata = \<lparr>md_total_clusters = 0, md_avg_cluster_size = 0,
                       md_silhouette_score = 0\<rparr>\<rparr>"

text \<open>The truth value of \<open>kw.get(k)\<close>, and \<open>kw[k]\<close>, which raises on a missing key.\<close>

definition py_truthy :: "pyval option \<Rightarrow> bool" where
  "py_truthy v =
     (case v of
        None \<Rightarrow> False
      | Some (PStr s) \<Rightarrow> s \<noteq> []
      | Some (PInt i) \<Rightarrow> i \<noteq> 0
      | Some (PReal x) \<Rightarrow> x \<noteq> 0
      | Some (PVec xs) \<Rightarrow> xs \<noteq> []
      | Some (PIdent i) \<Rightarrow> True)"

definition py_getitem :: "keyword \<Rightarrow> string \<Rightarrow> error + pyval" where
  "py_getitem kw k = (case map_of kw k of None \<Rightarrow> Inl (KeyError k) | Some v \<Rightarrow> Inr v)"

fun collect :: "(error + 'a) list \<Rightarrow> error + 'a list" where
  "collect [] = Inr []"
| "collect (r # rs) = and_then r (\<lambda>x. and_then (collect rs) (\<lambda>xs. Inr (x # xs)))"

text \<open>
  \<open>_generate_embeddings\<close>: \<open>[kw['keyword'] for kw in keywords]\<close>, then the embedding
  model, which raises on a text that is not a string.
\<close>

definition cw_generate_embeddings :: "library \<Rightarrow> keyword list \<Rightarrow> error + real list list" where
  "cw_generate_embeddings lib keywords =
     and_then (collect (map (\<lambda>kw. py_getitem kw ''keyword'') keywords)) (\<lambda>texts.
       if list_all (\<lambda>t. case t of PStr s \<Rightarrow> True | _ \<Rightarrow> False) texts
       then (case encode lib (map (\<lambda>t. case t of PStr s \<Rightarrow> s | _ \<Rightarrow> []) texts) of
               None \<Rightarrow> Inl (LibraryError ''encode'')
             | Some embeddings \<Rightarrow> Inr embeddings)
       else Inl (LibraryError ''encode''))"

text \<open>
  \<open>np.array([kw['embedding'] for kw in keywords])\<close>: the rows are vectors of one length,
  or the array is of no use to the clustering, which is taken to raise here.
\<close>

definition cw_given_embeddings :: "keyword list \<Rightarrow> error + real list list" where
  "cw_given_embeddings keywords =
     and_then (collect (map (\<lambda>kw. py_getitem kw ''embedding'') keywords)) (\<lambda>vs.
       if list_all (\<lambda>v. case v of PVec xs \<Rightarrow> True | _ \<Rightarrow> False) vs
       then np_array (map (\<lambda>v. case v of PVec xs \<Rightarrow> xs | _ \<Rightarrow> []) vs)
       else Inl (LibraryError ''np.array''))"

definition cw_perform_clustering :: "library \<Rightarrow> real list list \<Rightarrow> error + int list" where
  "cw_perform_clustering lib embeddings =
     (case hdbscan lib embeddings of
        None \<Rightarrow> Inl (LibraryError ''HDBSCAN'')
      | Some cluster_labels \<Rightarrow> Inr cluster_labels)"

subsection \<open>The worker's \<open>_generate_cluster_label\<close>\<close>

definition upper_char :: "char \<Rightarrow> char" where
  "upper_char c =
     (case map_of (zip ''abcdefghijklmnopqrstuvwxyz'' ''ABCDEFGHIJKLMNOPQRSTUVWXYZ'') c of
        Some u \<Rightarrow> u
      | None \<Rightarrow> c)"

definition is_alpha :: "char \<Rightarrow> bool" where
  "is_alpha c = (lower_char c \<noteq> c \<or> upper_char c \<noteq> c)"

text \<open>\<open>str.title()\<close> on ASCII: a letter after a letter is lower-cased, any other upper-cased.\<close>

fun title_from :: "bool \<Rightarrow> string \<Rightarrow> string" where
  "title_from after_letter [] = []"
| "title_from after_letter (c # cs) =
     (if is_alpha c
      then (if after_letter then lower_char c else upper_char c) # title_from True cs
      else c # title_from False cs)"

definition title :: "string \<Rightarrow> string" where
  "title s = title_from False s"

definition cw_stop_words :: "string list" where
  "cw_stop_words = [''the'', ''a'', ''an'', ''and'', ''or'', ''but'', ''in'', ''on'', ''at'',
                    ''to'', ''for'', ''of'', ''with'', ''by'']"

definition cw_count_word :: "(string \<times> nat) list \<Rightarrow> string \<Rightarrow> (string \<times> nat) list" where
  "cw_count_word word_counts word =
     (if word \<notin> set cw_stop_words \<and> length word > 2
      then AList.update word (case map_of word_counts word of None \<Rightarrow> 1 | Some c \<Rightarrow> c + 1)
             word_counts
      else word_counts)"

text \<open>\<open>kw['keyword'].lower()\<close>: a missing key and a value that is not a string raise.\<close>

definition keyword_lower :: "keyword \<Rightarrow> error + string" where
  "keyword_lower kw =
     and_then (py_getitem kw ''keyword'') (\<lambda>v.
       case v of PStr s \<Rightarrow> Inr (lower s) | _ \<Rightarrow> Inl (AttributeError ''lower''))"

definition cw_generate_cluster_label :: "keyword list \<Rightarrow> error + string" where
  "cw_generate_cluster_label cluster_keywords =
     and_then (collect (map keyword_lower cluster_keywords)) (\<lambda>keywords_text.
       let word_counts = foldl (\<lambda>wc keyword. foldl cw_count_word wc (str_split keyword))
                               [] keywords_text
       in if word_counts \<noteq> []
          then Inr (title (join '' '' (map fst (take 2 (sort_key (\<lambda>p. - int (snd p))
                                                          word_counts)))))
          else and_then (py_index cluster_keywords 0) (\<lambda>kw.
               and_then (py_getitem kw ''keyword'') (\<lambda>v.
                 case v of PStr s \<Rightarrow> Inr (title s) | _ \<Rightarrow> Inl (AttributeError ''title''))))"

subsection \<open>The worker's \<open>_calculate_cluster_metrics\<close>\<close>

text \<open>
  \<open>np.mean\<close> of a list of Python values raises unless they are numbers; a dictionary key
  must be hashable, which a list is not.
\<close>

definition number_of :: "pyval \<Rightarrow> error + real" where
  "number_of v =
     (case v of
        PInt i \<Rightarrow> Inr (real_of_int i)
      | PReal x \<Rightarrow> Inr x
      | _ \<Rightarrow> Inl (LibraryError ''np.mean''))"

definition get_or :: "keyword \<Rightarrow> string \<Rightarrow> pyval \<Rightarrow> pyval" where
  "get_or kw k d = (case map_of kw k of None \<Rightarrow> d | Some v \<Rightarrow> v)"

fun count_intents :: "(pyval \<times> nat) list \<Rightarrow> pyval list \<Rightarrow> error + (pyval \<times> nat) list" where
  "count_intents intent_counts [] = Inr intent_counts"
| "count_intents intent_counts (intent # rest) =
     (case intent of
        PVec xs \<Rightarrow> Inl (TypeError ''unhashable type'')
      | _ \<Rightarrow> count_intents
               (AList.update intent (case map_of intent_counts intent of
                                       None \<Rightarrow> 1 | Some c \<Rightarrow> c + 1) intent_counts)
               rest)"

definition cw_calculate_cluster_metrics ::
  "library \<Rightarrow> keyword list \<Rightarrow> error + cw_metrics option" where
  "cw_calculate_cluster_metrics lib cluster_keywords =
     (if cluster_keywords = [] then Inr None
      else
        and_then (collect (map (\<lambda>kw. number_of (get_or kw ''search_volume'' (PInt 0)))
                               cluster_keywords)) (\<lambda>search_volumes.
        and_then (collect (map (\<lambda>kw. number_of (get_or kw ''difficulty'' (PInt 50)))
                               cluster_keywords)) (\<lambda>difficulties.
          let avg_search_volume = sum_list search_volumes / real (length search_volumes);
              avg_difficulty = sum_list difficulties / real (length difficulties)
          in and_then (count_intents []
                         (map (\<lambda>kw. get_or kw ''intent'' (PStr ''unknown'')) cluster_keywords))
               (\<lambda>intent_counts.
                  Inr (Some \<lparr>cm_avg_search_volume = round_to lib avg_search_volume 2,
                             cm_avg_difficulty = round_to lib avg_difficulty 2,
                             cm_total_keywords = length cluster_keywords,
                             cm_intent_distribution = intent_counts\<rparr>)))))"

subsection \<open>The worker's \<open>_create_cluster_objects\<close>\<close>

text \<open>
  The body of the loop \<open>for cluster_id in unique_clusters\<close> for a label that is not noise;
  \<open>n\<close> counts the uuids drawn.
\<close>

definition cw_cluster_for ::
  "library \<Rightarrow> keyword list \<Rightarrow> int list \<Rightarrow> real list list \<Rightarrow> int \<Rightarrow> nat \<Rightarrow> error + cw_cluster" where
  "cw_cluster_for lib keywords cluster_labels embeddings cluster_id n =
     (let cluster_indices = indices_where cluster_labels cluster_id in
      and_then (take_items keywords cluster_indices) (\<lambda>cluster_keywords.
      and_then (take_items embeddings cluster_indices) (\<lambda>cluster_embeddings.
      and_then (cw_generate_cluster_label cluster_keywords) (\<lambda>label.
      and_then (cw_calculate_cluster_metrics lib cluster_keywords) (\<lambda>metrics.
        Inr \<lparr>cw_id = Uuid n, cw_label = label, cw_keywords = cluster_keywords,
             cw_centroid = mean_axis0 cluster_embeddings, cw_metrics = metrics\<rparr>)))))"

text \<open>
  The loop over \<open>set(cluster_labels)\<close>, taken in increasing order (the order of a Python
  set is not specified), which skips the noise label \<open>-1\<close>.
\<close>

fun cw_clusters_loop ::
  "library \<Rightarrow> keyword list \<Rightarrow> int list \<Rightarrow> real list list \<Rightarrow> int list \<Rightarrow> cw_cluster list
     \<Rightarrow> error + cw_cluster list" where
  "cw_clusters_loop lib keywords cluster_labels embeddings [] clusters = Inr clusters"
| "cw_clusters_loop lib keywords cluster_labels embeddings (cluster_id # rest) clusters =
     (if cluster_id = - 1
      then cw_clusters_loop lib keywords cluster_labels embeddings rest clusters
      else and_then (cw_cluster_for lib keywords cluster_labels embeddings cluster_id
                       (length clusters))
             (\<lambda>c. cw_clusters_loop lib keywords cluster_labels embeddings rest
                     (clusters @ [c])))"

definition cw_create_cluster_objects ::
  "library \<Rightarrow> keyword list \<Rightarrow> int list \<Rightarrow> real list list \<Rightarrow> error + cw_cluster list" where
  "cw_create_cluster_objects lib keywords cluster_labels embeddings =
     cw_clusters_loop lib keywords cluster_labels embeddings (np_unique cluster_labels) []"

subsection \<open>\<open>_calculate_cluster_metadata\<close> and \<open>cluster_keywords\<close>\<close>

text \<open>
  The silhouette score is computed inside a handler of its own, which leaves it at 0 on
  any exception; a boolean mask of another length than the array is such an exception.
\<close>

definition cw_silhouette :: "library \<Rightarrow> real list list \<Rightarrow> int list \<Rightarrow> real" where
  "cw_silhouette lib embeddings cluster_labels =
     (if length embeddings \<noteq> length cluster_labels then 0
      else
        let valid = filter (\<lambda>i. cluster_labels ! i \<noteq> - 1) [0..<length cluster_labels]
        in if length valid > 1
           then (case silhouette_score lib (map (\<lambda>i. embeddings ! i) valid)
                        (map (\<lambda>i. PInt (cluster_labels ! i)) valid) of
                   None \<Rightarrow> 0
                 | Some s \<Rightarrow> s)
           else 0)"

definition cw_calculate_cluster_metadata ::
  "library \<Rightarrow> cw_cluster list \<Rightarrow> real list list \<Rightarrow> int list \<Rightarrow> cw_metadata" where
  "cw_calculate_cluster_metadata lib clusters embeddings cluster_labels =
     (let total_clusters = length clusters
      in if total_clusters = 0
         then \<lparr>md_total_clusters = 0, md_avg_cluster_size = 0, md_silhouette_score = 0\<rparr>
         else
           let cluster_sizes = map (\<lambda>c. length (cw_keywords c)) clusters;
               avg_cluster_size = real (sum_list cluster_sizes) / real (length cluster_sizes);
               silhouette =
                 (if total_clusters > 1 \<and> length (remdups cluster_labels) > 1
                  then cw_silhouette lib embeddings cluster_labels else 0)
           in \<lparr>md_total_clusters = total_clusters,
               md_avg_cluster_size = round_to lib avg_cluster_size 2,
               md_silhouette_score = round_to lib silhouette 3\<rparr>)"

text \<open>
  The statements of \<open>cluster_keywords\<close> after the test for an empty batch: what is inside
  the \<open>try\<close>.
\<close>

definition cw_embeddings :: "library \<Rightarrow> keyword list \<Rightarrow> error + real list list" where
  "cw_embeddings lib keywords =
     (if \<not> py_truthy (map_of (hd keywords) ''embedding'')
      then cw_generate_embeddings lib keywords
      else cw_given_embeddings keywords)"

definition cluster_keywords_body :: "library \<Rightarrow> keyword list \<Rightarrow> error + cw_result" where
  "cluster_keywords_body lib keywords =
     and_then (cw_embeddings lib keywords) (\<lambda>embeddings.
     and_then (cw_perform_clustering lib embeddings) (\<lambda>cluster_labels.
     and_then (cw_create_cluster_objects lib keywords cluster_labels embeddings) (\<lambda>clusters.
       Inr \<lparr>res_clusters = clusters,
            res_metadata = cw_calculate_cluster_metadata lib clusters embeddings
                             cluster_labels\<rparr>)))"

text \<open>
  \<open>cluster_keywords\<close>: the empty batch returns the empty result, and the handler
  \<open>except Exception\<close> returns the empty result for whatever the body raises. The call of
  the logger in the handler is taken to return.
\<close>

definition cluster_keywords :: "library \<Rightarrow> keyword list \<Rightarrow> error + cw_result" where
  "cluster_keywords lib keywords =
     (if keywords = [] then Inr empty_result
      else case cluster_keywords_body lib keywords of
             Inl e \<Rightarrow> Inr empty_result
           | Inr result \<Rightarrow> Inr result)"

text \<open>
  Sample batches of the worker: three keywords; the same with the first keyword
  carrying no text; and the same with an embedding on every keyword.
\<close>

definition worker_batch :: "keyword list" where
  "worker_batch =
     [[(''keyword'', PStr ''best seo tools''), (''search_volume'', PInt 1000)],
      [(''keyword'', PStr ''top seo tools''), (''difficulty'', PInt 40)],
      [(''keyword'', PStr ''seo tutorial''), (''intent'', PStr ''informational'')]]"

definition textless_batch :: "keyword list" where
  "textless_batch = [(''id'', PInt 1)] # tl worker_batch"

definition embedded_textless_batch :: "keyword list" where
  "embedded_textless_batch = map (\<lambda>kw. (''embedding'', PVec [1, 0]) # kw) textless_batch"

text \<open>The clusters that the worker builds for the three keywords.\<close>

definition worker_clusters :: "cw_cluster list" where
  "worker_clusters =
     [\<lparr>cw_id = Uuid 0, cw_label = ''Seo Tools'',
       cw_keywords = [[(''keyword'', PStr ''best seo tools''), (''search_volume'', PInt 1000)],
                      [(''keyword'', PStr ''top seo tools''), (''difficulty'', PInt 40)]],
       cw_centroid = [27 / 2],
       cw_metrics = Some \<lparr>cm_avg_search_volume = 500, cm_avg_difficulty = 45,
                           cm_total_keywords = 2,
                           cm_intent_distribution = [(PStr ''unknown'', 2)]\<rparr>\<rparr>,
      \<lparr>cw_id = Uuid 1, cw_label = ''Seo Tutorial'',
       cw_keywords = [[(''keyword'', PStr ''seo tutorial''), (''intent'', PStr ''informational'')]],
       cw_centroid = [12],
       cw_metrics = Some \<lparr>cm_avg_search_volume = 0, cm_avg_difficulty = 50,
                           cm_total_keywords = 1,
                           cm_intent_distribution = [(PStr ''informational'', 1)]\<rparr>\<rparr>]"

text \<open>The sample library with a density clustering that raises.\<close>

definition failing_hdbscan_library :: library where
  "failing_hdbscan_library = sample_library\<lparr>hdbscan := (\<lambda>embeddings. None)\<rparr>"

chapter \<open>Verified properties\<close>

section \<open>The grouping loop\<close>

lemma group_cluster_groups_shrinks:
  "group_cluster_groups groups = Inr nxt \<Longrightarrow> nxt = [] \<or> length nxt < length groups"
  by (auto simp: group_cluster_groups_def and_then_def Let_def split: if_splits sum.splits)

lemma levels_while_eq: "levels_while levels groups = Some (levels_loop levels groups)"
proof (induction levels groups rule: levels_loop.induct)
  case (1 levels current_level)
  show ?case
  proof (cases "current_level = []")
    case True
    then show ?thesis by (simp add: levels_while.simps levels_loop.simps)
  next
    case False
    show ?thesis
    proof (cases "group_cluster_groups current_level")
      case (Inl e)
      with False show ?thesis by (subst levels_while.simps, subst levels_loop.simps) simp
    next
      case (Inr nxt)
      with False "1.IH"[OF False Inr] show ?thesis
        by (subst levels_while.simps, subst levels_loop.simps) simp
    qed
  qed
qed

lemma levels_loop_length:
  "levels_loop levels groups = Inr ls \<Longrightarrow> length ls \<le> length levels + length groups"
proof (induction levels groups rule: levels_loop.induct)
  case (1 levels current_level)
  show ?case
  proof (cases "current_level = []")
    case True
    with "1.prems" show ?thesis by (simp add: levels_loop.simps)
  next
    case False
    show ?thesis
    proof (cases "group_cluster_groups current_level")
      case (Inl e)
      with False "1.prems" show ?thesis by (simp add: levels_loop.simps[of levels])
    next
      case (Inr nxt)
      from group_cluster_groups_shrinks[OF Inr] False
      have "length nxt < length current_level" by auto
      moreover from False Inr "1.prems"
      have "levels_loop (levels @ [current_level]) nxt = Inr ls"
        by (simp add: levels_loop.simps[of levels])
      from "1.IH"[OF False Inr this]
      have "length ls \<le> length (levels @ [current_level]) + length nxt" .
      ultimately show ?thesis by simp
    qed
  qed
qed

text \<open>
  C6. The grouping loop of the hierarchy builder terminates on every list of groups: the
  \<open>while\<close> loop returns (the value of the total loop), a pass that returns groups
  returns either none, which stops the loop, or strictly fewer than it was given, a level
  of at most one group has no next level, and the number of levels is at most the number
  of groups the loop starts with.
\<close>

theorem grouping_loop_terminates:
  "levels_while levels groups = Some (levels_loop levels groups)
   \<and> (\<forall>nxt. group_cluster_groups groups = Inr nxt \<longrightarrow> nxt = [] \<or> length nxt < length groups)
   \<and> (length groups \<le> 1 \<longrightarrow> group_cluster_groups groups = Inr [])
   \<and> (\<forall>ls. levels_loop levels groups = Inr ls \<longrightarrow> length ls \<le> length levels + length groups)"
proof (intro conjI allI impI)
  show "levels_while levels groups = Some (levels_loop levels groups)"
    by (rule levels_while_eq)
next
  fix nxt assume "group_cluster_groups groups = Inr nxt"
  then show "nxt = [] \<or> length nxt < length groups" by (rule group_cluster_groups_shrinks)
next
  assume "length groups \<le> 1"
  then show "group_cluster_groups groups = Inr []" by (simp add: group_cluster_groups_def)
next
  fix ls assume "levels_loop levels groups = Inr ls"
  then show "length ls \<le> length levels + length groups" by (rule levels_loop_length)
qed

lemma sample_groups_pass:
  "group_cluster_groups sample_groups = Inr [[sample_cluster_a, sample_cluster_d], [sample_cluster_c]]"
  by code_simp

lemma sample_groups_levels:
  "levels_loop [] sample_groups
     = Inr [sample_groups, [[sample_cluster_a, sample_cluster_d], [sample_cluster_c]]]"
  by code_simp

theorem grouping_loop_terminates_witness:
  "levels_while [] sample_groups
     = Some (Inr [sample_groups, [[sample_cluster_a, sample_cluster_d], [sample_cluster_c]]])
   \<and> group_cluster_groups sample_groups
       = Inr [[sample_cluster_a, sample_cluster_d], [sample_cluster_c]]
   \<and> length [[sample_cluster_a, sample_cluster_d], [sample_cluster_c]] < length sample_groups
   \<and> group_cluster_groups [[sample_cluster_a]] = Inr []
   \<and> length [sample_groups, [[sample_cluster_a, sample_cluster_d], [sample_cluster_c]]]
       \<le> length ([] :: cluster list list list) + length sample_groups"
  using grouping_loop_terminates[of "[]" sample_groups]
    grouping_loop_terminates[of "[]" "[[sample_cluster_a]]"]
    sample_groups_pass sample_groups_levels
  by (simp add: sample_groups_def)

section \<open>The shape of the hierarchy\<close>

lemma update_fresh: "k \<notin> fst ` set al \<Longrightarrow> AList.update k v al = al @ [(k, v)]"
  by (induction al) auto

lemma group_node_ok_mono: "group_node_ok ids b p \<Longrightarrow> b \<le> b' \<Longrightarrow> group_node_ok ids b' p"
  by (auto simp: group_node_ok_def split: ident.splits)

lemma group_node_ok_bound: "group_node_ok ids b (LevelId l n, nd) \<Longrightarrow> n < b"
  by (auto simp: group_node_ok_def)

lemma group_node_okD:
  assumes "group_node_ok ids b p"
  shows "set (n_children (snd p)) \<subseteq> ids" and "fst p \<noteq> RootId" and "1 \<le> n_level (snd p)"
    and "\<not> is_uuid (fst p)"
  using assms by (cases "fst p"; simp add: group_node_ok_def is_uuid_def)+

lemma group_nodes_not_root:
  "list_all (group_node_ok ids b) rest \<Longrightarrow> RootId \<notin> fst ` set rest"
proof
  assume ok: "list_all (group_node_ok ids b) rest" and "RootId \<in> fst ` set rest"
  then obtain p where p: "p \<in> set rest" "fst p = RootId" by auto
  with ok have "group_node_ok ids b p" by (simp add: list_all_iff)
  from group_node_okD(2)[OF this] p show False by simp
qed

lemma add_parent_node_inv:
  assumes inv: "hierarchy_inv ids sz h" and lv: "1 \<le> level" and sub: "c_id ` set g \<subseteq> ids"
  shows "hierarchy_inv ids sz (add_parent_node level h g)"
proof -
  from inv obtain r rest where h: "h = (RootId, r) # rest"
    and r: "n_id r = RootId" "n_level r = 0" "n_size r = sz" "n_children r = map fst rest"
    and d: "distinct (map fst rest)"
    and ok: "list_all (group_node_ok ids (Suc (length rest))) rest"
    by (cases h) (auto simp: hierarchy_inv_def)
  let ?k = "LevelId level (length h)"
  have fresh: "?k \<notin> fst ` set rest"
  proof
    assume "?k \<in> fst ` set rest"
    then obtain nd where "(?k, nd) \<in> set rest" by auto
    with ok have "group_node_ok ids (Suc (length rest)) (?k, nd)" by (auto simp: list_all_iff)
    then have "length h < Suc (length rest)" by (rule group_node_ok_bound)
    with h show False by simp
  qed
  let ?nd = "\<lparr>n_id = ?k, n_label = ''Group '' @ str_nat (length h), n_children = map c_id g,
              n_level = level, n_size = sum_list (map c_size g)\<rparr>"
  have new: "add_parent_node level h g
      = (RootId, r\<lparr>n_children := n_children r @ [?k]\<rparr>) # rest @ [(?k, ?nd)]"
    using fresh by (simp add: add_parent_node_def h update_fresh)
  have okn: "group_node_ok ids (Suc (Suc (length rest))) (?k, ?nd)"
    using lv sub h by (auto simp: group_node_ok_def)
  have ok': "list_all (group_node_ok ids (Suc (Suc (length rest)))) rest"
    using ok by (auto simp: list_all_iff intro: group_node_ok_mono)
  show ?thesis
    unfolding new using r d fresh okn ok' by (simp add: hierarchy_inv_def)
qed

lemma foldl_add_parent_inv:
  "hierarchy_inv ids sz h \<Longrightarrow> 1 \<le> level \<Longrightarrow> \<forall>g\<in>set grp. c_id ` set g \<subseteq> ids
     \<Longrightarrow> hierarchy_inv ids sz (foldl (add_parent_node level) h grp)"
proof (induction grp arbitrary: h)
  case Nil
  then show ?case by simp
next
  case (Cons g grp)
  have "hierarchy_inv ids sz (add_parent_node level h g)"
    using Cons.prems by (intro add_parent_node_inv) auto
  from Cons.IH[OF this] Cons.prems show ?case by simp
qed

lemma add_levels_inv:
  "hierarchy_inv ids sz h \<Longrightarrow> 1 \<le> level \<Longrightarrow> \<forall>grp\<in>set lvls. \<forall>g\<in>set grp. c_id ` set g \<subseteq> ids
     \<Longrightarrow> hierarchy_inv ids sz (add_levels level lvls h)"
proof (induction lvls arbitrary: h level)
  case Nil
  then show ?case by simp
next
  case (Cons grp rest)
  have "hierarchy_inv ids sz (foldl (add_parent_node level) h grp)"
    using Cons.prems by (intro foldl_add_parent_inv) auto
  then show ?case using Cons.prems by (auto intro!: Cons.IH)
qed


lemma similar_inner_subset:
  "set js \<subseteq> {..<length clusters} \<Longrightarrow> set (fst acc) \<subseteq> set clusters
     \<Longrightarrow> set (fst (similar_inner cents clusters i js acc)) \<subseteq> set clusters"
proof (induction js arbitrary: acc)
  case Nil
  then show ?case by (cases acc) simp
next
  case (Cons j js)
  obtain grp used where acc: "acc = (grp, used)" by (cases acc)
  from Cons.prems have j: "clusters ! j \<in> set clusters" and js: "set js \<subseteq> {..<length clusters}"
    by auto
  let ?acc' = "if j \<notin> used \<and> dot (cents ! i) (cents ! j) > 7 / 10
        then (grp @ [clusters ! j], insert j used) else (grp, used)"
  have "set (fst ?acc') \<subseteq> set clusters" using Cons.prems(2) j acc by auto
  from Cons.IH[OF js this] show ?case by (simp add: acc)
qed



lemma all_within_nth: "all_within S groups \<Longrightarrow> i < length groups \<Longrightarrow> set (groups ! i) \<subseteq> S"
  by (simp add: all_within_def list_all_length)

lemma similar_outer_within:
  "set is \<subseteq> {..<length clusters} \<Longrightarrow> all_within (set clusters) (fst acc)
     \<Longrightarrow> all_within (set clusters) (fst (similar_outer cents clusters is acc))"
proof (induction "is" arbitrary: acc)
  case Nil
  then show ?case by (cases acc) simp
next
  case (Cons i "is")
  obtain groups used where acc: "acc = (groups, used)" by (cases acc)
  from Cons.prems have i: "clusters ! i \<in> set clusters" and is': "set is \<subseteq> {..<length clusters}"
    by auto
  let ?inner = "similar_inner cents clusters i [0..<length clusters] ([clusters ! i], insert i used)"
  have inner: "set (fst ?inner) \<subseteq> set clusters"
    using i by (intro similar_inner_subset) auto
  let ?acc' = "if i \<in> used then (groups, used)
        else case ?inner of (grp, used') \<Rightarrow> (groups @ [grp], used')"
  have "all_within (set clusters) (fst ?acc')"
    using Cons.prems(2) inner acc by (auto simp: all_within_def split: prod.splits)
  from Cons.IH[OF is' this] show ?case by (simp add: acc)
qed

lemma groups_inner_subset:
  "set js \<subseteq> {..<length groups} \<Longrightarrow> all_within S groups \<Longrightarrow> set (fst acc) \<subseteq> S
     \<Longrightarrow> set (fst (groups_inner cents groups i js acc)) \<subseteq> S"
proof (induction js arbitrary: acc)
  case Nil
  then show ?case by (cases acc) simp
next
  case (Cons j js)
  obtain grp used where acc: "acc = (grp, used)" by (cases acc)
  from Cons.prems have j: "set (groups ! j) \<subseteq> S" and js: "set js \<subseteq> {..<length groups}"
    by (auto dest: all_within_nth)
  let ?acc' = "if j \<notin> used \<and> dot (cents ! i) (cents ! j) > 6 / 10
        then (grp @ groups ! j, insert j used) else (grp, used)"
  have "set (fst ?acc') \<subseteq> S" using Cons.prems(3) j acc by auto
  from Cons.IH[OF js Cons.prems(2) this] show ?case by (simp add: acc)
qed

lemma groups_outer_within:
  "set is \<subseteq> {..<length groups} \<Longrightarrow> all_within S groups \<Longrightarrow> all_within S (fst acc)
     \<Longrightarrow> all_within S (fst (groups_outer cents groups is acc))"
proof (induction "is" arbitrary: acc)
  case Nil
  then show ?case by (cases acc) simp
next
  case (Cons i "is")
  obtain new_groups used where acc: "acc = (new_groups, used)" by (cases acc)
  from Cons.prems have i: "set (groups ! i) \<subseteq> S" and is': "set is \<subseteq> {..<length groups}"
    by (auto dest: all_within_nth)
  let ?inner = "groups_inner cents groups i [0..<length groups] (groups ! i, insert i used)"
  have inner: "set (fst ?inner) \<subseteq> S"
    using i Cons.prems(2) by (intro groups_inner_subset) auto
  let ?acc' = "if i \<in> used then (new_groups, used)
        else case ?inner of (new_group, used') \<Rightarrow> (new_groups @ [new_group], used')"
  have "all_within S (fst ?acc')"
    using Cons.prems(3) inner acc by (auto simp: all_within_def split: prod.splits)
  from Cons.IH[OF is' Cons.prems(2) this] show ?case by (simp add: acc)
qed

lemma group_cluster_groups_within:
  assumes "group_cluster_groups groups = Inr nxt" and "all_within S groups"
  shows "all_within S nxt"
proof (cases "length groups \<le> 1")
  case True
  with assms show ?thesis by (simp add: group_cluster_groups_def all_within_def)
next
  case False
  with assms(1) obtain arr where
    nxt: "nxt = (let new_groups = fst (groups_outer arr groups [0..<length groups] ([], {}))
                 in if length new_groups < length groups then new_groups else [])"
    by (auto simp: group_cluster_groups_def and_then_def Let_def split: sum.splits)
  have "all_within S (fst (groups_outer arr groups [0..<length groups] ([], {})))"
    using assms(2) by (intro groups_outer_within) (auto simp: all_within_def)
  then show ?thesis by (simp add: nxt Let_def all_within_def)
qed

lemma levels_loop_within:
  "levels_loop levels groups = Inr ls \<Longrightarrow> list_all (all_within S) levels \<Longrightarrow> all_within S groups
     \<Longrightarrow> list_all (all_within S) ls"
proof (induction levels groups rule: levels_loop.induct)
  case (1 levels current_level)
  show ?case
  proof (cases "current_level = []")
    case True
    with "1.prems" show ?thesis by (simp add: levels_loop.simps)
  next
    case False
    show ?thesis
    proof (cases "group_cluster_groups current_level")
      case (Inl e)
      with False "1.prems" show ?thesis by (simp add: levels_loop.simps[of levels])
    next
      case (Inr nxt)
      from False Inr "1.prems"(1) have run: "levels_loop (levels @ [current_level]) nxt = Inr ls"
        by (simp add: levels_loop.simps[of levels])
      have "all_within S nxt" using Inr "1.prems"(3) by (rule group_cluster_groups_within)
      moreover have "list_all (all_within S) (levels @ [current_level])"
        using "1.prems" by simp
      ultimately show ?thesis using "1.IH"[OF False Inr run] by simp
    qed
  qed
qed

lemma group_similar_clusters_within:
  assumes "group_similar_clusters clusters = Inr ls"
  shows "list_all (all_within (set clusters)) ls"
proof -
  from assms obtain arr where
    run: "levels_loop [] (fst (similar_outer arr clusters [0..<length clusters] ([], {}))) = Inr ls"
    by (auto simp: group_similar_clusters_def and_then_def Let_def split: sum.splits)
  have "all_within (set clusters) (fst (similar_outer arr clusters [0..<length clusters] ([], {})))"
    by (intro similar_outer_within) (auto simp: all_within_def)
  then show ?thesis using levels_loop_within[OF run, of "set clusters"] by simp
qed

lemma hierarchy_inv_root_node: "hierarchy_inv ids (sum_list (map c_size clusters)) [(RootId, root_node clusters)]"
  by (simp add: hierarchy_inv_def root_node_def)

lemma build_cluster_hierarchy_inv:
  assumes "build_cluster_hierarchy clusters = Inr h"
  shows "hierarchy_inv (c_id ` set clusters) (sum_list (map c_size clusters)) h"
proof -
  from assms obtain ls where ls: "group_similar_clusters clusters = Inr ls"
    and h: "h = add_levels 1 ls [(RootId, root_node clusters)]"
    by (auto simp: build_cluster_hierarchy_def and_then_def split: sum.splits)
  have "\<forall>grp\<in>set ls. \<forall>g\<in>set grp. c_id ` set g \<subseteq> c_id ` set clusters"
    using group_similar_clusters_within[OF ls] by (auto simp: list_all_iff all_within_def)
  then show ?thesis unfolding h
    by (intro add_levels_inv hierarchy_inv_root_node) auto
qed

lemma parents_of_group_node:
  assumes inv: "hierarchy_inv ids sz h" and uu: "\<forall>i\<in>ids. is_uuid i"
    and k: "k \<in> fst ` set (tl h)"
  shows "parents h k = [RootId]"
proof -
  from inv obtain r rest where h: "h = (RootId, r) # rest"
    and r: "n_children r = map fst rest"
    and ok: "list_all (group_node_ok ids (Suc (length rest))) rest"
    by (cases h) (auto simp: hierarchy_inv_def)
  have "filter (\<lambda>p. k \<in> set (n_children (snd p))) rest = []"
  proof (rule filter_False, rule ballI)
    fix p assume p: "p \<in> set rest"
    with ok have pk: "group_node_ok ids (Suc (length rest)) p" by (simp add: list_all_iff)
    from k h obtain nd where "(k, nd) \<in> set rest" by auto
    with ok have "group_node_ok ids (Suc (length rest)) (k, nd)" by (auto simp: list_all_iff)
    then have "\<not> is_uuid k" by (auto dest: group_node_okD(4))
    moreover from pk have "set (n_children (snd p)) \<subseteq> ids"
      by (rule group_node_okD(1))
    ultimately show "\<not> k \<in> set (n_children (snd p))" using uu by auto
  qed
  moreover have "k \<in> set (n_children r)" using k h r by auto
  ultimately show ?thesis by (simp add: parents_def h)
qed


lemma parents_of_root:
  assumes inv: "hierarchy_inv ids sz h" and uu: "\<forall>i\<in>ids. is_uuid i"
  shows "parents h RootId = []"
proof -
  from inv obtain r rest where h: "h = (RootId, r) # rest"
    and r: "n_children r = map fst rest"
    and ok: "list_all (group_node_ok ids (Suc (length rest))) rest"
    by (cases h) (auto simp: hierarchy_inv_def)
  have nr: "RootId \<notin> fst ` set rest"
    using ok by (rule group_nodes_not_root)
  have "filter (\<lambda>p. RootId \<in> set (n_children (snd p))) rest = []"
  proof (rule filter_False, rule ballI)
    fix p assume "p \<in> set rest"
    with ok have "set (n_children (snd p)) \<subseteq> ids"
      by (auto simp: list_all_iff dest: group_node_okD(1))
    moreover have "\<not> is_uuid RootId" by (simp add: is_uuid_def)
    ultimately show "\<not> RootId \<in> set (n_children (snd p))" using uu by blast
  qed
  with nr show ?thesis by (simp add: parents_def h r)
qed

lemma enumerate_append: "enumerate n (xs @ ys) = enumerate n xs @ enumerate (n + length xs) ys"
  by (induction xs arbitrary: n) simp_all

lemma add_parent_node_tl:
  assumes inv: "hierarchy_inv ids sz h"
  shows "tl (add_parent_node level h g) = tl h @ [group_node (length h, level, g)]"
    and "length (add_parent_node level h g) = Suc (length h)"
proof -
  from inv obtain r rest where h: "h = (RootId, r) # rest"
    and ok: "list_all (group_node_ok ids (Suc (length rest))) rest"
    by (cases h) (auto simp: hierarchy_inv_def)
  let ?k = "LevelId level (length h)"
  have fresh: "?k \<notin> fst ` set rest"
  proof
    assume "?k \<in> fst ` set rest"
    then obtain nd where "(?k, nd) \<in> set rest" by auto
    with ok have "group_node_ok ids (Suc (length rest)) (?k, nd)" by (auto simp: list_all_iff)
    then have "length h < Suc (length rest)" by (rule group_node_ok_bound)
    with h show False by simp
  qed
  have new: "add_parent_node level h g
      = (RootId, r\<lparr>n_children := n_children r @ [?k]\<rparr>) # rest @ [group_node (length h, level, g)]"
    using fresh by (simp add: add_parent_node_def h update_fresh group_node_def)
  show "tl (add_parent_node level h g) = tl h @ [group_node (length h, level, g)]"
    unfolding new by (simp add: h)
  show "length (add_parent_node level h g) = Suc (length h)"
    unfolding new by (simp add: h)
qed

lemma foldl_add_parent_tl:
  "hierarchy_inv ids sz h \<Longrightarrow> 1 \<le> level \<Longrightarrow> \<forall>g\<in>set grp. c_id ` set g \<subseteq> ids
     \<Longrightarrow> tl (foldl (add_parent_node level) h grp)
           = tl h @ map group_node (enumerate (length h) (map (Pair level) grp))
         \<and> length (foldl (add_parent_node level) h grp) = length h + length grp"
proof (induction grp arbitrary: h)
  case Nil
  then show ?case by simp
next
  case (Cons g grp)
  have inv': "hierarchy_inv ids sz (add_parent_node level h g)"
    using Cons.prems by (intro add_parent_node_inv) auto
  from Cons.IH[OF inv'] Cons.prems add_parent_node_tl[OF Cons.prems(1), of level g]
  show ?case by simp
qed

lemma add_levels_tl:
  "hierarchy_inv ids sz h \<Longrightarrow> 1 \<le> level \<Longrightarrow> \<forall>grp\<in>set lvls. \<forall>g\<in>set grp. c_id ` set g \<subseteq> ids
     \<Longrightarrow> tl (add_levels level lvls h)
           = tl h @ map group_node (enumerate (length h)
               (concat (map (\<lambda>(level, grp). map (Pair level) grp) (enumerate level lvls))))"
proof (induction lvls arbitrary: h level)
  case Nil
  then show ?case by simp
next
  case (Cons grp rest)
  let ?h1 = "foldl (add_parent_node level) h grp"
  have inv1: "hierarchy_inv ids sz ?h1"
    using Cons.prems by (intro foldl_add_parent_inv) auto
  have step: "tl ?h1 = tl h @ map group_node (enumerate (length h) (map (Pair level) grp))"
    and len: "length ?h1 = length h + length grp"
    using foldl_add_parent_tl[of ids sz h level grp] Cons.prems by auto
  have "tl (add_levels (Suc level) rest ?h1)
          = tl ?h1 @ map group_node (enumerate (length ?h1)
               (concat (map (\<lambda>(level, grp). map (Pair level) grp) (enumerate (Suc level) rest))))"
    using Cons.prems by (intro Cons.IH[OF inv1]) auto
  then show ?case by (simp add: step len enumerate_append)
qed

lemma build_cluster_hierarchy_nodes:
  assumes "build_cluster_hierarchy clusters = Inr h"
  shows "\<exists>cluster_groups. group_similar_clusters clusters = Inr cluster_groups
           \<and> tl h = map group_node (enumerate 1 (numbered_groups cluster_groups))"
proof -
  from assms obtain ls where ls: "group_similar_clusters clusters = Inr ls"
    and h: "h = add_levels 1 ls [(RootId, root_node clusters)]"
    by (auto simp: build_cluster_hierarchy_def and_then_def split: sum.splits)
  have sub: "\<forall>grp\<in>set ls. \<forall>g\<in>set grp. c_id ` set g \<subseteq> c_id ` set clusters"
    using group_similar_clusters_within[OF ls] by (auto simp: list_all_iff all_within_def)
  have "tl h = tl [(RootId, root_node clusters)] @ map group_node (enumerate (length [(RootId, root_node clusters)])
               (concat (map (\<lambda>(level, grp). map (Pair level) grp) (enumerate 1 ls))))"
    unfolding h using sub
    by (intro add_levels_tl[where ids = "c_id ` set clusters"
          and sz = "sum_list (map c_size clusters)"] hierarchy_inv_root_node) auto
  then show ?thesis using ls by (simp add: numbered_groups_def)
qed

text \<open>
  C2, as the code has it. A hierarchy that \<open>_build_cluster_hierarchy\<close> returns for
  clusters with uuid identifiers has the root as its first entry, at level 0, with the
  sum of the cluster sizes as its size; its keys are distinct; the root has no parent;
  every other node is a group node of level at least 1, is listed exactly once among the
  children of the root (the children of the root are the other keys, in order, without
  repetition), has the root as its only parent, and has cluster identifiers as children.
  The nodes after the root are, in order, one for every group of every grouping pass that
  \<open>_group_similar_clusters\<close> returned, the passes numbered from 1: the node of a group of
  pass \<open>level\<close> has \<open>level\<close> as its level, the identifier \<open>level_{level}_{n}\<close> for its position
  \<open>n\<close> in the hierarchy, the identifiers of the clusters of the group as its children and
  the sum of their sizes as its size. No identifier of a cluster is a key of the hierarchy:
  the leaf clusters are not nodes.
\<close>

theorem hierarchy_shape:
  assumes "build_cluster_hierarchy clusters = Inr h"
    and "list_all (\<lambda>c. is_uuid (c_id c)) clusters"
  shows "\<exists>r rest. h = (RootId, r) # rest \<and> n_id r = RootId \<and> n_level r = 0
           \<and> n_size r = sum_list (map c_size clusters)
           \<and> n_children r = map fst rest \<and> distinct (map fst h)
           \<and> parents h RootId = []
           \<and> list_all (\<lambda>p. fst p \<noteq> RootId \<and> 1 \<le> n_level (snd p)
                              \<and> parents h (fst p) = [RootId]
                              \<and> set (n_children (snd p)) \<subseteq> c_id ` set clusters) rest
           \<and> (\<exists>cluster_groups. group_similar_clusters clusters = Inr cluster_groups
                 \<and> rest = map group_node (enumerate 1 (numbered_groups cluster_groups)))
           \<and> c_id ` set clusters \<inter> fst ` set h = {}"
proof -
  let ?ids = "c_id ` set clusters"
  have inv: "hierarchy_inv ?ids (sum_list (map c_size clusters)) h"
    using assms(1) by (rule build_cluster_hierarchy_inv)
  have uu: "\<forall>i\<in>?ids. is_uuid i" using assms(2) by (auto simp: list_all_iff)
  from inv obtain r rest where h: "h = (RootId, r) # rest"
    and r: "n_id r = RootId" "n_level r = 0" "n_size r = sum_list (map c_size clusters)"
      "n_children r = map fst rest"
    and d: "distinct (map fst rest)"
    and ok: "list_all (group_node_ok ?ids (Suc (length rest))) rest"
    by (cases h) (auto simp: hierarchy_inv_def)
  have nr: "RootId \<notin> fst ` set rest"
    using ok by (rule group_nodes_not_root)
  have each: "fst p \<noteq> RootId \<and> 1 \<le> n_level (snd p) \<and> parents h (fst p) = [RootId]
                \<and> set (n_children (snd p)) \<subseteq> ?ids" if p: "p \<in> set rest" for p
  proof -
    from p ok have g: "group_node_ok ?ids (Suc (length rest)) p" by (simp add: list_all_iff)
    have "fst p \<in> fst ` set (tl h)" using p h by auto
    from parents_of_group_node[OF inv uu this] group_node_okD[OF g] show ?thesis
      by simp
  qed
  have nu: "\<not> is_uuid k" if k: "k \<in> fst ` set h" for k
  proof (cases "k = RootId")
    case True
    then show ?thesis by (simp add: is_uuid_def)
  next
    case False
    with k h obtain p where p: "p \<in> set rest" "fst p = k" by auto
    with ok have "group_node_ok ?ids (Suc (length rest)) p" by (simp add: list_all_iff)
    from group_node_okD(4)[OF this] p show ?thesis by simp
  qed
  have "distinct (map fst h)" using d nr by (simp add: h)
  moreover have "parents h RootId = []" using inv uu by (rule parents_of_root)
  moreover have "list_all (\<lambda>p. fst p \<noteq> RootId \<and> 1 \<le> n_level (snd p)
                              \<and> parents h (fst p) = [RootId]
                              \<and> set (n_children (snd p)) \<subseteq> ?ids) rest"
    using each by (simp add: list_all_iff)
  moreover have "\<exists>cluster_groups. group_similar_clusters clusters = Inr cluster_groups
                 \<and> rest = map group_node (enumerate 1 (numbered_groups cluster_groups))"
    using build_cluster_hierarchy_nodes[OF assms(1)] by (simp add: h)
  moreover have "?ids \<inter> fst ` set h = {}" using uu nu by blast
  ultimately show ?thesis using h r by blast
qed

lemma sample_hierarchy_built: "build_cluster_hierarchy sample_clusters = Inr sample_hierarchy"
  by code_simp

lemma sample_clusters_uuid: "list_all (\<lambda>c. is_uuid (c_id c)) sample_clusters"
  by code_simp

lemma sample_cluster_groups:
  "group_similar_clusters sample_clusters
     = Inr [[[sample_cluster_a, sample_cluster_b], [sample_cluster_c], [sample_cluster_d]],
            [[sample_cluster_a, sample_cluster_b, sample_cluster_d], [sample_cluster_c]]]"
  by code_simp

lemma sample_group_nodes:
  "tl sample_hierarchy = map group_node (enumerate 1 (numbered_groups
      [[[sample_cluster_a, sample_cluster_b], [sample_cluster_c], [sample_cluster_d]],
            [[sample_cluster_a, sample_cluster_b, sample_cluster_d], [sample_cluster_c]]]))"
  by code_simp

lemma sample_node_levels:
  "node_levels sample_hierarchy
     = [(RootId, 0), (LevelId 1 1, 1), (LevelId 1 2, 1), (LevelId 1 3, 1), (LevelId 2 4, 2),
        (LevelId 2 5, 2)]"
  by code_simp

theorem hierarchy_shape_witness:
  "build_cluster_hierarchy sample_clusters = Inr sample_hierarchy
   \<and> list_all (\<lambda>c. is_uuid (c_id c)) sample_clusters
   \<and> (\<exists>r rest. sample_hierarchy = (RootId, r) # rest \<and> n_id r = RootId \<and> n_level r = 0
           \<and> n_size r = sum_list (map c_size sample_clusters)
           \<and> n_children r = map fst rest \<and> distinct (map fst sample_hierarchy)
           \<and> parents sample_hierarchy RootId = []
           \<and> list_all (\<lambda>p. fst p \<noteq> RootId \<and> 1 \<le> n_level (snd p)
                              \<and> parents sample_hierarchy (fst p) = [RootId]
                              \<and> set (n_children (snd p)) \<subseteq> c_id ` set sample_clusters) rest
           \<and> (\<exists>cluster_groups. group_similar_clusters sample_clusters = Inr cluster_groups
                 \<and> rest = map group_node (enumerate 1 (numbered_groups cluster_groups)))
           \<and> c_id ` set sample_clusters \<inter> fst ` set sample_hierarchy = {})
   \<and> group_similar_clusters sample_clusters
       = Inr [[[sample_cluster_a, sample_cluster_b], [sample_cluster_c], [sample_cluster_d]],
              [[sample_cluster_a, sample_cluster_b, sample_cluster_d], [sample_cluster_c]]]
   \<and> tl sample_hierarchy = map group_node (enumerate 1 (numbered_groups
        [[[sample_cluster_a, sample_cluster_b], [sample_cluster_c], [sample_cluster_d]],
         [[sample_cluster_a, sample_cluster_b, sample_cluster_d], [sample_cluster_c]]]))
   \<and> node_levels sample_hierarchy
       = [(RootId, 0), (LevelId 1 1, 1), (LevelId 1 2, 1), (LevelId 1 3, 1), (LevelId 2 4, 2),
          (LevelId 2 5, 2)]"
  using hierarchy_shape[OF sample_hierarchy_built sample_clusters_uuid]
    sample_hierarchy_built sample_clusters_uuid sample_cluster_groups sample_group_nodes
    sample_node_levels
  by (intro conjI)

text \<open>
  C2 as the specification states it fails: the root is not at the maximum level. For a
  single cluster the hierarchy has the root at level 0 and one group node at level 1.
\<close>

theorem root_level_counterexample:
  "map_sum id node_levels (build_cluster_hierarchy [sample_cluster_a])
     = Inr [(RootId, 0), (LevelId 1 1, 1)]"
  by code_simp

section \<open>The optimal-cluster estimator\<close>






lemma nth_np_diff: "Suc i < length xs \<Longrightarrow> np_diff xs ! i = xs ! Suc i - xs ! i"
  by (simp add: np_diff_def nth_tl)













section \<open>Topic coherence\<close>

lemma coherence_inner_eq:
  "D \<noteq> [] \<Longrightarrow> coherence_inner w ws D (s, p) =
     (s + sum_list (map (\<lambda>w2. cooccurrence_fraction D (w, w2)) ws), p + length ws)"
  by (induction ws arbitrary: s p)
     (simp_all add: cooccurrence_fraction_def contains_term_def co_occurrences_def)

lemma coherence_outer_eq:
  "D \<noteq> [] \<Longrightarrow> coherence_outer T D (s, p) =
     (s + sum_list (map (cooccurrence_fraction D) (unordered_pairs T)),
      p + length (unordered_pairs T))"
  by (induction T arbitrary: s p) (simp_all add: coherence_inner_eq comp_def)

lemma coherence_inner_empty: "coherence_inner w ws [] (s, p) = (s, p + length ws)"
  by (induction ws arbitrary: s p) simp_all

lemma coherence_outer_empty: "coherence_outer T [] (s, p) = (s, p + length (unordered_pairs T))"
  by (induction T arbitrary: s p) (simp_all add: coherence_inner_empty)

lemma unordered_pairs_empty_iff: "unordered_pairs T = [] \<longleftrightarrow> length T < 2"
  by (cases T rule: unordered_pairs.cases) (auto simp: Suc_lessI)

lemma coherence_outer_short: "length T < 2 \<Longrightarrow> coherence_outer T D acc = acc"
  by (cases T rule: unordered_pairs.cases) auto

lemma coherence_eq_spec: "D \<noteq> [] \<Longrightarrow> calculate_topic_coherence T D = spec_coherence T D"
  by (simp add: calculate_topic_coherence_def coherence_outer_eq spec_coherence_def mean_of_def
        unordered_pairs_empty_iff)

lemma coherence_short: "length T < 2 \<Longrightarrow> calculate_topic_coherence T D = 0"
  by (simp add: calculate_topic_coherence_def coherence_outer_short)

lemma coherence_no_documents: "calculate_topic_coherence T [] = 0"
  by (simp add: calculate_topic_coherence_def coherence_outer_empty)

lemma set_unordered_pairs:
  "set (unordered_pairs T) = {(T ! i, T ! j) | i j. i < j \<and> j < length T}"
proof (induction T)
  case Nil
  show ?case by simp
next
  case (Cons x xs)
  have "{((x # xs) ! i, (x # xs) ! j) | i j. i < j \<and> j < length (x # xs)}
        = {(x, xs ! j) | j. j < length xs} \<union> {(xs ! i, xs ! j) | i j. i < j \<and> j < length xs}"
    (is "?L = ?A \<union> ?B")
  proof (rule set_eqI, rule iffI)
    fix p assume "p \<in> ?L"
    then obtain i j where p: "p = ((x # xs) ! i, (x # xs) ! j)" and ij: "i < j" "j < length (x # xs)"
      by blast
    from ij obtain j' where j': "j = Suc j'" by (cases j) auto
    show "p \<in> ?A \<union> ?B"
    proof (cases i)
      case 0
      with p j' ij show ?thesis by auto
    next
      case (Suc i')
      with p j' ij have "p = (xs ! i', xs ! j') \<and> i' < j' \<and> j' < length xs" by auto
      then show ?thesis by blast
    qed
  next
    fix p assume "p \<in> ?A \<union> ?B"
    then consider j where "p = (x, xs ! j)" "j < length xs"
      | i j where "p = (xs ! i, xs ! j)" "i < j" "j < length xs" by blast
    then show "p \<in> ?L"
    proof cases
      case 1
      then have "p = ((x # xs) ! 0, (x # xs) ! Suc j) \<and> 0 < Suc j \<and> Suc j < length (x # xs)"
        by simp
      then show ?thesis by blast
    next
      case 2
      then have "p = ((x # xs) ! Suc i, (x # xs) ! Suc j) \<and> Suc i < Suc j \<and> Suc j < length (x # xs)"
        by simp
      then show ?thesis by blast
    qed
  qed
  moreover have "set (map (Pair x) xs) = {(x, xs ! j) | j. j < length xs}"
  proof -
    have "set xs = {xs ! j | j. j < length xs}" by (rule set_conv_nth)
    then have "Pair x ` set xs = Pair x ` {xs ! j | j. j < length xs}" by simp
    also have "\<dots> = {(x, xs ! j) | j. j < length xs}" by blast
    finally show ?thesis by simp
  qed
  ultimately show ?case using Cons.IH by simp
qed

lemma unordered_pairs_distinct_terms:
  assumes "distinct T" and "p \<in> set (unordered_pairs T)"
  shows "fst p \<noteq> snd p"
proof -
  from assms(2) obtain i j where "p = (T ! i, T ! j)" "i < j" "j < length T"
    by (auto simp: set_unordered_pairs)
  with assms(1) show ?thesis by (auto simp: nth_eq_iff_index_eq)
qed

lemma extract_topics_coherence:
  "extract_topics lib fns D k rows = Inr ts
     \<Longrightarrow> list_all (\<lambda>t. t_coherence t = calculate_topic_coherence (t_words t) D) ts"
proof (induction rows arbitrary: k ts)
  case Nil
  then show ?case by simp
next
  case (Cons row rows)
  from Cons.prems obtain top_words weights rest where
    r: "extract_topics lib fns D (Suc k) rows = Inr rest"
    and ts: "ts = \<lparr>t_id = k, t_words = top_words, t_weights = weights,
              t_coherence = calculate_topic_coherence top_words D\<rparr> # rest"
    by (auto simp: and_then_def Let_def split: sum.splits)
  from Cons.IH[OF r] ts show ?case by simp
qed

lemma generate_topic_model_coherence:
  assumes "map_sum id fst (generate_topic_model lib D w) = Inr tm"
  shows "list_all (\<lambda>t. t_coherence t = calculate_topic_coherence (t_words t) D) (tm_topics tm)"
    and "tm_coherence_score tm = np_mean (map t_coherence (tm_topics tm))"
proof -
  from assms obtain fns rows where
    ex: "extract_topics lib fns D 0 rows = Inr (tm_topics tm)"
    and cs: "tm_coherence_score tm = np_mean (map t_coherence (tm_topics tm))"
    by (auto simp: generate_topic_model_def and_then_def Let_def
             split: option.splits sum.splits prod.splits)
  from extract_topics_coherence[OF ex]
  show "list_all (\<lambda>t. t_coherence t = calculate_topic_coherence (t_words t) D) (tm_topics tm)" .
  from cs show "tm_coherence_score tm = np_mean (map t_coherence (tm_topics tm))" .
qed

text \<open>
  C7. For a topic with top terms \<open>T\<close> and documents \<open>D\<close> (not empty, so that the fraction
  of documents is defined), the coherence that the code computes is the mean, over the
  unordered pairs of the terms of \<open>T\<close>, of the fraction of the documents of \<open>D\<close> that
  contain both terms (as substrings of the lower-cased document); it is 0 when \<open>T\<close> has
  fewer than two terms; for distinct terms every pair is a pair of distinct terms. In a
  topic model that \<open>_generate_topic_model\<close> returns, every topic's coherence is the
  coherence of its top words over the keyword texts, and the model's \<open>coherence_score\<close>
  is the mean of the topics' coherences.
\<close>

theorem topic_coherence_is_mean:
  "(D \<noteq> [] \<longrightarrow> calculate_topic_coherence T D = spec_coherence T D)
   \<and> (length T < 2 \<longrightarrow> calculate_topic_coherence T D = 0)
   \<and> (distinct T \<longrightarrow> list_all (\<lambda>p. fst p \<noteq> snd p) (unordered_pairs T))
   \<and> (map_sum id fst (generate_topic_model lib D w) = Inr tm \<longrightarrow>
         list_all (\<lambda>t. t_coherence t = calculate_topic_coherence (t_words t) D) (tm_topics tm)
         \<and> (tm_topics tm \<noteq> [] \<longrightarrow>
               tm_coherence_score tm = Some (mean_of (map t_coherence (tm_topics tm)))))"
proof (intro conjI impI)
  assume "D \<noteq> []"
  then show "calculate_topic_coherence T D = spec_coherence T D" by (rule coherence_eq_spec)
next
  assume "length T < 2"
  then show "calculate_topic_coherence T D = 0" by (rule coherence_short)
next
  assume "distinct T"
  then show "list_all (\<lambda>p. fst p \<noteq> snd p) (unordered_pairs T)"
    using unordered_pairs_distinct_terms[of T] by (simp add: list_all_iff)
next
  assume "map_sum id fst (generate_topic_model lib D w) = Inr tm"
  then show "list_all (\<lambda>t. t_coherence t = calculate_topic_coherence (t_words t) D) (tm_topics tm)"
    by (rule generate_topic_model_coherence(1))
next
  assume tm: "map_sum id fst (generate_topic_model lib D w) = Inr tm" and ne: "tm_topics tm \<noteq> []"
  from generate_topic_model_coherence(2)[OF tm] ne
  show "tm_coherence_score tm = Some (mean_of (map t_coherence (tm_topics tm)))"
    by (simp add: np_mean_def mean_of_def)
qed

lemma sample_topic_model_generated:
  "map_sum id fst (generate_topic_model sample_library sample_texts (batch_of sample_texts))
     = Inr sample_topic_model"
  by code_simp

lemma sample_spec_coherence: "spec_coherence [''seo'', ''tools''] sample_texts = 3 / 10"
  by code_simp

lemma sample_texts_not_empty: "sample_texts \<noteq> []"
  by (simp add: sample_texts_def)

lemma sample_topics_not_empty: "tm_topics sample_topic_model \<noteq> []"
  by (simp add: sample_topic_model_def)

theorem topic_coherence_is_mean_witness:
  "sample_texts \<noteq> []
   \<and> calculate_topic_coherence [''seo'', ''tools''] sample_texts
       = spec_coherence [''seo'', ''tools''] sample_texts
   \<and> spec_coherence [''seo'', ''tools''] sample_texts = 3 / 10
   \<and> length [''seo''] < 2
   \<and> calculate_topic_coherence [''seo''] sample_texts = 0
   \<and> distinct [''seo'', ''tools'']
   \<and> list_all (\<lambda>p. fst p \<noteq> snd p) (unordered_pairs [''seo'', ''tools''])
   \<and> map_sum id fst (generate_topic_model sample_library sample_texts (batch_of sample_texts))
       = Inr sample_topic_model
   \<and> tm_topics sample_topic_model \<noteq> []
   \<and> tm_coherence_score sample_topic_model
       = Some (mean_of (map t_coherence (tm_topics sample_topic_model)))"
  using topic_coherence_is_mean[of sample_texts "[''seo'', ''tools'']" sample_library
          "batch_of sample_texts" sample_topic_model]
    topic_coherence_is_mean[of sample_texts "[''seo'']" sample_library
          "batch_of sample_texts" sample_topic_model]
    sample_topic_model_generated sample_spec_coherence sample_texts_not_empty
    sample_topics_not_empty
  by simp

section \<open>The fields that clustering writes\<close>

lemma unchanged_except_refl: "unchanged_except ks kw kw"
  by (simp add: unchanged_except_def)

lemma unchanged_except_trans:
  "unchanged_except ks a b \<Longrightarrow> unchanged_except ks b c \<Longrightarrow> unchanged_except ks a c"
  by (simp add: unchanged_except_def)

lemma unchanged_except_mono:
  assumes "set ks \<subseteq> set ks'" and "unchanged_except ks a b"
  shows "unchanged_except ks' a b"
proof -
  have f: "filter (\<lambda>p. fst p \<notin> set ks') xs = filter (\<lambda>p. fst p \<notin> set ks') (filter (\<lambda>p. fst p \<notin> set ks) xs)"
    for xs :: keyword
    using assms(1) by (auto intro: filter_cong)
  from assms(2) have "filter (\<lambda>p. fst p \<notin> set ks) b = filter (\<lambda>p. fst p \<notin> set ks) a"
    by (simp add: unchanged_except_def)
  then show ?thesis unfolding unchanged_except_def by (subst f, subst (2) f) simp
qed

lemma filter_update_other:
  "k \<in> set ks \<Longrightarrow> filter (\<lambda>p. fst p \<notin> set ks) (AList.update k v kw) = filter (\<lambda>p. fst p \<notin> set ks) kw"
  by (induction kw) auto

lemma unchanged_update:
  "k \<in> set ks \<Longrightarrow> unchanged_except ks a b \<Longrightarrow> unchanged_except ks a (AList.update k v b)"
  unfolding unchanged_except_def by (simp only: filter_update_other)

lemma unchanged_assign_cluster:
  "unchanged_except [''cluster_id'', ''cluster_label''] kw (assign_cluster uid l kw)"
  unfolding assign_cluster_def
  by (intro unchanged_update unchanged_except_refl) simp_all

lemma unchanged_assign_topic:
  "unchanged_except [''cluster_id'', ''cluster_label'', ''topic_id''] kw (assign_topic uid l t kw)"
  unfolding assign_topic_def
  by (intro unchanged_update unchanged_except_refl) simp_all

lemma list_all2_refl_unchanged: "list_all2 (unchanged_except ks) st st"
  by (simp add: list_all2_refl unchanged_except_refl)

lemma list_all2_trans_unchanged:
  "list_all2 (unchanged_except ks) a b \<Longrightarrow> list_all2 (unchanged_except ks) b c
     \<Longrightarrow> list_all2 (unchanged_except ks) a c"
  by (rule list_all2_trans[where ?P1.0 = "unchanged_except ks" and ?P2.0 = "unchanged_except ks"])
     (auto intro: unchanged_except_trans)

lemma update_keywords_unchanged:
  assumes "\<And>kw. unchanged_except ks kw (f kw)"
  shows "list_all2 (unchanged_except ks) st (update_keywords f refs st)"
  unfolding update_keywords_def
proof (induction refs arbitrary: st)
  case Nil
  show ?case by (simp add: list_all2_refl_unchanged)
next
  case (Cons r refs)
  have "unchanged_except ks (st ! i) (st[r := f (st ! r)] ! i)" if "i < length st" for i
    using that assms[of "st ! r"] by (cases "i = r") (simp_all add: unchanged_except_refl)
  then have "list_all2 (unchanged_except ks) st (st[r := f (st ! r)])"
    by (simp add: list_all2_conv_all_nth)
  from list_all2_trans_unchanged[OF this Cons.IH] show ?case by simp
qed


lemma cluster_object_for_frame:
  assumes "cluster_object_for lib refs labels emb label w = Inr (c, w')"
  shows "list_all2 (unchanged_except [''cluster_id'', ''cluster_label'']) (store w) (store w')"
proof -
  from assms obtain f ck where "store w' = update_keywords f ck (store w)"
    and "f = assign_cluster (fst (fresh_uuid w)) (c_label c)"
    by (auto simp: cluster_object_for_def and_then_def Let_def fresh_uuid_def split: sum.splits)
  then show ?thesis
    by (simp add: update_keywords_unchanged unchanged_assign_cluster)
qed

lemma cluster_objects_loop_frame:
  "cluster_objects_loop lib refs labels emb ls (cs, w) = Inr (cs', w')
     \<Longrightarrow> list_all2 (unchanged_except [''cluster_id'', ''cluster_label'']) (store w) (store w')"
proof (induction ls arbitrary: cs w)
  case Nil
  then show ?case by (simp add: list_all2_refl_unchanged)
next
  case (Cons label rest)
  show ?case
  proof (cases "label = - 1")
    case True
    with Cons.prems have "cluster_objects_loop lib refs labels emb rest (cs, w) = Inr (cs', w')"
      by simp
    then show ?thesis by (rule Cons.IH)
  next
    case False
    with Cons.prems obtain c w1 where
      step: "cluster_object_for lib refs labels emb label w = Inr (c, w1)"
      and run: "cluster_objects_loop lib refs labels emb rest (cs @ [c], w1) = Inr (cs', w')"
      by (auto simp: and_then_def split: sum.splits)
    from cluster_object_for_frame[OF step] Cons.IH[OF run] show ?thesis
      by (rule list_all2_trans_unchanged)
  qed
qed

lemma topic_cluster_for_frame:
  assumes "topic_cluster_for lib refs labels tds fns comps label w = Inr (c, w')"
  shows "list_all2 (unchanged_except [''cluster_id'', ''cluster_label'', ''topic_id''])
           (store w) (store w')"
proof -
  from assms obtain f ck where "store w' = update_keywords f ck (store w)"
    and "f = assign_topic (fst (fresh_uuid w)) (c_label c) label"
    by (auto simp: topic_cluster_for_def and_then_def Let_def fresh_uuid_def split: sum.splits)
  then show ?thesis
    by (simp add: update_keywords_unchanged unchanged_assign_topic)
qed

lemma topic_clusters_loop_frame:
  "topic_clusters_loop lib refs labels tds fns comps ls (cs, w) = Inr (cs', w')
     \<Longrightarrow> list_all2 (unchanged_except [''cluster_id'', ''cluster_label'', ''topic_id''])
           (store w) (store w')"
proof (induction ls arbitrary: cs w)
  case Nil
  then show ?case by (simp add: list_all2_refl_unchanged)
next
  case (Cons label rest)
  from Cons.prems obtain c w1 where
    step: "topic_cluster_for lib refs labels tds fns comps label w = Inr (c, w1)"
    and run: "topic_clusters_loop lib refs labels tds fns comps rest (cs @ [c], w1) = Inr (cs', w')"
    by (auto simp: and_then_def split: sum.splits)
  from topic_cluster_for_frame[OF step] Cons.IH[OF run] show ?case
    by (rule list_all2_trans_unchanged)
qed

lemma hierarchical_clustering_frame:
  assumes "hierarchical_clustering lib emb refs n linkage thr w = Inr (cs, w')"
  shows "list_all2 (unchanged_except [''cluster_id'', ''cluster_label'']) (store w) (store w')"
  using assms
  by (auto simp: hierarchical_clustering_def create_cluster_objects_def Let_def
           split: option.splits intro: cluster_objects_loop_frame)

lemma topic_modeling_clustering_frame:
  assumes "topic_modeling_clustering lib texts refs n method w = Inr (cs, w')"
  shows "list_all2 (unchanged_except [''cluster_id'', ''cluster_label'', ''topic_id''])
           (store w) (store w')"
  using assms
  by (auto simp: topic_modeling_clustering_def create_topic_clusters_def and_then_def
           split: option.splits sum.splits prod.splits if_splits
           intro: topic_clusters_loop_frame)

lemma refine_or_pass_frame:
  assumes "refine_or_pass lib refs cluster w = Inr (c, w')"
  shows "list_all2 (unchanged_except [''cluster_id'', ''cluster_label'', ''topic_id''])
           (store w) (store w')"
proof (cases "length (members_of w refs cluster) > 5")
  case True
  with assms obtain tcs where
    "topic_modeling_clustering lib (map (\<lambda>r. keyword_text (store w ! r)) (members_of w refs cluster))
       (members_of w refs cluster) (min 3 (length (members_of w refs cluster) div 2)) ''lda'' w
     = Inr (tcs, w')"
    by (auto simp: refine_or_pass_def and_then_def Let_def split: option.splits sum.splits)
  then show ?thesis by (rule topic_modeling_clustering_frame)
next
  case False
  with assms have "w' = w" by (simp add: refine_or_pass_def Let_def)
  then show ?thesis by (simp add: list_all2_refl_unchanged)
qed

lemma hybrid_loop_frame:
  "hybrid_loop lib refs cls (cs, w) = Inr (cs', w')
     \<Longrightarrow> list_all2 (unchanged_except [''cluster_id'', ''cluster_label'', ''topic_id''])
           (store w) (store w')"
proof (induction cls arbitrary: cs w)
  case Nil
  then show ?case by (simp add: list_all2_refl_unchanged)
next
  case (Cons cluster rest)
  from Cons.prems obtain c w1 where
    step: "refine_or_pass lib refs cluster w = Inr (c, w1)"
    and run: "hybrid_loop lib refs rest (cs @ [c], w1) = Inr (cs', w')"
    by (auto simp: and_then_def split: sum.splits)
  from refine_or_pass_frame[OF step] Cons.IH[OF run] show ?case
    by (rule list_all2_trans_unchanged)
qed

lemma list_all2_unchanged_mono:
  "set ks \<subseteq> set ks' \<Longrightarrow> list_all2 (unchanged_except ks) a b \<Longrightarrow> list_all2 (unchanged_except ks') a b"
  by (erule list_all2_mono) (rule unchanged_except_mono)

lemma hybrid_clustering_frame:
  assumes "hybrid_clustering lib emb texts refs n w = Inr (cs, w')"
  shows "list_all2 (unchanged_except [''cluster_id'', ''cluster_label'', ''topic_id''])
           (store w) (store w')"
proof -
  from assms obtain sem w1 where
    h: "hierarchical_clustering lib emb refs n ''ward'' None w = Inr (sem, w1)"
    and l: "hybrid_loop lib refs sem ([], w1) = Inr (cs, w')"
    by (auto simp: hybrid_clustering_def and_then_def split: sum.splits)
  have "list_all2 (unchanged_except [''cluster_id'', ''cluster_label'', ''topic_id''])
          (store w) (store w1)"
    using hierarchical_clustering_frame[OF h] by (rule list_all2_unchanged_mono[rotated]) auto
  from this hybrid_loop_frame[OF l] show ?thesis by (rule list_all2_trans_unchanged)
qed

lemma dispatch_clustering_frame:
  assumes "dispatch_clustering lib method kwargs emb texts w = Inr (cs, w')"
  shows "list_all2 (unchanged_except [''cluster_id'', ''cluster_label'', ''topic_id''])
           (store w) (store w')"
proof -
  consider (h) "method = ''hierarchical''" | (t) "method = ''topic_modeling''"
    | (y) "method = ''hybrid''"
    | (o) "method \<noteq> ''hierarchical''" "method \<noteq> ''topic_modeling''" "method \<noteq> ''hybrid''"
    by blast
  then show ?thesis
  proof cases
    case h
    with assms obtain n l t where
      "hierarchical_clustering lib emb [0..<length (store w)] n l t w = Inr (cs, w')"
      by (auto simp: dispatch_clustering_def Let_def split: if_splits)
    from hierarchical_clustering_frame[OF this] show ?thesis
      by (rule list_all2_unchanged_mono[rotated]) auto
  next
    case t
    with assms obtain n where
      "topic_modeling_clustering lib texts [0..<length (store w)] n ''lda'' w = Inr (cs, w')"
      by (auto simp: dispatch_clustering_def Let_def split: if_splits)
    then show ?thesis by (rule topic_modeling_clustering_frame)
  next
    case y
    with assms obtain n where
      "hybrid_clustering lib emb texts [0..<length (store w)] n w = Inr (cs, w')"
      by (auto simp: dispatch_clustering_def Let_def split: if_splits)
    then show ?thesis by (rule hybrid_clustering_frame)
  next
    case o
    with assms show ?thesis by (simp add: dispatch_clustering_def Let_def)
  qed
qed


lemma generate_topic_model_store:
  "generate_topic_model lib texts w = Inr (tm, w') \<Longrightarrow> store w' = store w"
  by (auto simp: generate_topic_model_def and_then_def Let_def fresh_uuid_def
           split: option.splits sum.splits prod.splits)

lemma perform_advanced_clustering_frame:
  assumes "perform_advanced_clustering lib method kwargs w = Inr (res, w')"
  shows "list_all2 (unchanged_except [''cluster_id'', ''cluster_label'', ''topic_id''])
           (store w) (store w')"
proof -
  from assms obtain emb cs w1 tm where
    d: "dispatch_clustering lib method kwargs emb (map keyword_text (store w)) w = Inr (cs, w1)"
    and g: "generate_topic_model lib (map keyword_text (store w)) w1 = Inr (tm, w')"
    by (auto simp: perform_advanced_clustering_def and_then_def Let_def
             split: option.splits sum.splits)
  from dispatch_clustering_frame[OF d] generate_topic_model_store[OF g] show ?thesis by simp
qed

text \<open>
  C8, as the code has it. When it returns, the cluster-assignment step of
  \<open>_create_cluster_objects\<close> leaves every field of every keyword but \<open>cluster_id\<close> and
  \<open>cluster_label\<close> as it was; the step of \<open>_create_topic_clusters\<close> writes \<open>topic_id\<close>
  as well, so under every strategy, and for the whole engine, every field but
  \<open>cluster_id\<close>, \<open>cluster_label\<close> and \<open>topic_id\<close> of every keyword is unchanged.
\<close>

theorem cluster_assignment_frame:
  "keeps_other_fields [''cluster_id'', ''cluster_label''] w
     (create_cluster_objects lib kw_refs cluster_labels embeddings w)
   \<and> keeps_other_fields [''cluster_id'', ''cluster_label'', ''topic_id''] w
       (create_topic_clusters lib kw_refs cluster_labels topic_distributions feature_names
          components w)
   \<and> keeps_other_fields [''cluster_id'', ''cluster_label'', ''topic_id''] w
       (dispatch_clustering lib strategy kwargs embeddings keyword_texts w)
   \<and> keeps_other_fields [''cluster_id'', ''cluster_label'', ''topic_id''] w
       (perform_advanced_clustering lib strategy kwargs w)"
proof (intro conjI)
  show "keeps_other_fields [''cluster_id'', ''cluster_label''] w
          (create_cluster_objects lib kw_refs cluster_labels embeddings w)"
  proof (cases "create_cluster_objects lib kw_refs cluster_labels embeddings w")
    case (Inl e)
    then show ?thesis by (simp add: keeps_other_fields_def)
  next
    case (Inr x)
    then have "cluster_objects_loop lib kw_refs cluster_labels embeddings
                 (np_unique cluster_labels) ([], w) = Inr (fst x, snd x)"
      by (simp add: create_cluster_objects_def)
    from cluster_objects_loop_frame[OF this] Inr show ?thesis
      by (simp add: keeps_other_fields_def)
  qed
  show "keeps_other_fields [''cluster_id'', ''cluster_label'', ''topic_id''] w
          (create_topic_clusters lib kw_refs cluster_labels topic_distributions feature_names
             components w)"
  proof (cases "create_topic_clusters lib kw_refs cluster_labels topic_distributions
                  feature_names components w")
    case (Inl e)
    then show ?thesis by (simp add: keeps_other_fields_def)
  next
    case (Inr x)
    then have "topic_clusters_loop lib kw_refs cluster_labels topic_distributions feature_names
                 components (np_unique cluster_labels) ([], w) = Inr (fst x, snd x)"
      by (simp add: create_topic_clusters_def)
    from topic_clusters_loop_frame[OF this] Inr show ?thesis
      by (simp add: keeps_other_fields_def)
  qed
  show "keeps_other_fields [''cluster_id'', ''cluster_label'', ''topic_id''] w
          (dispatch_clustering lib strategy kwargs embeddings keyword_texts w)"
  proof (cases "dispatch_clustering lib strategy kwargs embeddings keyword_texts w")
    case (Inl e)
    then show ?thesis by (simp add: keeps_other_fields_def)
  next
    case (Inr x)
    then have "dispatch_clustering lib strategy kwargs embeddings keyword_texts w
                 = Inr (fst x, snd x)" by simp
    from dispatch_clustering_frame[OF this] Inr show ?thesis
      by (simp add: keeps_other_fields_def)
  qed
  show "keeps_other_fields [''cluster_id'', ''cluster_label'', ''topic_id''] w
          (perform_advanced_clustering lib strategy kwargs w)"
  proof (cases "perform_advanced_clustering lib strategy kwargs w")
    case (Inl e)
    then show ?thesis by (simp add: keeps_other_fields_def)
  next
    case (Inr x)
    then have "perform_advanced_clustering lib strategy kwargs w = Inr (fst x, snd x)" by simp
    from perform_advanced_clustering_frame[OF this] Inr show ?thesis
      by (simp add: keeps_other_fields_def)
  qed
qed

lemma sample_hybrid_returns:
  "\<not> isl (perform_advanced_clustering sample_library ''hybrid'' one_cluster (batch_of equal_texts))"
  by code_simp

theorem cluster_assignment_frame_witness:
  "\<not> isl (perform_advanced_clustering sample_library ''hybrid'' one_cluster (batch_of equal_texts))
   \<and> keeps_other_fields [''cluster_id'', ''cluster_label'', ''topic_id''] (batch_of equal_texts)
       (perform_advanced_clustering sample_library ''hybrid'' one_cluster (batch_of equal_texts))"
  using cluster_assignment_frame[where w = "batch_of equal_texts" and lib = sample_library
          and strategy = "''hybrid''" and kwargs = one_cluster]
    sample_hybrid_returns
  by simp

text \<open>
  C8 as the specification states it fails: a third field is written. For ten equal
  keywords under the hybrid strategy with \<open>n_clusters=1\<close>, the first keyword has no
  \<open>topic_id\<close> before the run and \<open>topic_id = 0\<close> after it.
\<close>

theorem topic_id_written_counterexample:
  "map_of (store (batch_of equal_texts) ! 0) ''topic_id'' = None
   \<and> field_after 0 ''topic_id''
         (perform_advanced_clustering sample_library ''hybrid'' one_cluster (batch_of equal_texts))
       = Inr (Some (PInt 0))"
  by code_simp

section \<open>The dispatch on the strategy\<close>

text \<open>
  The statement \<open>raise ValueError\<close> of the dispatch is the only one of the engine that builds
  a \<open>ValueError\<close>: no procedure of a supported strategy reaches it. The lemmas below follow
  the engine's own errors through the procedures; what a library raises there, a
  \<open>ValueError\<close> of its own included, is passed on by the engine as it is.
\<close>

lemma rve_Inr: "\<not> own_value_error (Inr x)"
  by (simp add: own_value_error_def)

lemma rve_Inl: "own_value_error (Inl e) \<longleftrightarrow> (\<exists>m. e = ValueError m)"
  by (cases e) (simp_all add: own_value_error_def)

lemma rve_simps:
  "\<not> own_value_error (Inl IndexError)"
  "\<not> own_value_error (Inl (KeyError k))"
  "\<not> own_value_error (Inl (TypeError m))"
  "\<not> own_value_error (Inl (AttributeError m))"
  "\<not> own_value_error (Inl (LibraryError m))"
  "own_value_error (Inl (ValueError m))"
  by (simp_all add: own_value_error_def)

lemma rve_and_then:
  "\<not> own_value_error r \<Longrightarrow> (\<And>x. \<not> own_value_error (f x)) \<Longrightarrow> \<not> own_value_error (and_then r f)"
  by (cases r) (auto simp: and_then_def own_value_error_def)

lemma rve_and_then_iff:
  "own_value_error (and_then r f)
     \<longleftrightarrow> own_value_error r \<or> (\<exists>x. r = Inr x \<and> own_value_error (f x))"
  by (cases r) (auto simp: and_then_def own_value_error_def)

lemma rve_take_items: "\<not> own_value_error (take_items xs idx)"
  by (induction idx) (simp_all add: rve_and_then_iff rve_Inr rve_simps)

lemma rve_py_index: "\<not> own_value_error (py_index xs i)"
  by (simp add: py_index_def Let_def rve_Inr rve_simps)

lemma rve_cluster_object_for: "\<not> own_value_error (cluster_object_for lib refs labels emb label w)"
  unfolding cluster_object_for_def Let_def
  by (intro rve_and_then rve_take_items rve_Inr)

lemma rve_cluster_objects_loop:
  "\<not> own_value_error (cluster_objects_loop lib refs labels emb ls acc)"
proof (induction ls arbitrary: acc)
  case Nil
  show ?case by (cases acc) (simp add: rve_Inr)
next
  case (Cons l ls)
  show ?case by (cases acc) (simp add: rve_and_then_iff rve_cluster_object_for Cons.IH)
qed

lemma rve_hierarchical_clustering:
  "\<not> own_value_error (hierarchical_clustering lib emb refs n linkage thr w)"
  by (simp add: hierarchical_clustering_def create_cluster_objects_def Let_def
        rve_cluster_objects_loop rve_simps split: option.splits)

lemma rve_argmax_axis1: "\<not> own_value_error (argmax_axis1 rows)"
  by (simp add: argmax_axis1_def rve_Inr rve_simps)

lemma rve_topic_cluster_for:
  "\<not> own_value_error (topic_cluster_for lib refs labels tds fns comps label w)"
  unfolding topic_cluster_for_def Let_def
  by (intro rve_and_then rve_take_items rve_py_index rve_Inr)

lemma rve_topic_clusters_loop:
  "\<not> own_value_error (topic_clusters_loop lib refs labels tds fns comps ls acc)"
proof (induction ls arbitrary: acc)
  case Nil
  show ?case by (cases acc) (simp add: rve_Inr)
next
  case (Cons l ls)
  show ?case by (cases acc) (simp add: rve_and_then_iff rve_topic_cluster_for Cons.IH)
qed

lemma rve_topic_modeling_clustering:
  "\<not> own_value_error (topic_modeling_clustering lib texts refs n m w)"
  unfolding topic_modeling_clustering_def create_topic_clusters_def
  by (simp add: rve_and_then_iff rve_argmax_axis1 rve_topic_clusters_loop rve_simps
           split: option.splits prod.splits)

lemma rve_refine_or_pass: "\<not> own_value_error (refine_or_pass lib refs c w)"
  unfolding refine_or_pass_def Let_def
  by (simp add: rve_and_then_iff rve_topic_modeling_clustering rve_simps rve_Inr
           split: option.splits)

lemma rve_hybrid_loop: "\<not> own_value_error (hybrid_loop lib refs cls acc)"
proof (induction cls arbitrary: acc)
  case Nil
  show ?case by (cases acc) (simp add: rve_Inr)
next
  case (Cons c cls)
  show ?case by (cases acc) (simp add: rve_and_then_iff rve_refine_or_pass Cons.IH)
qed

lemma rve_hybrid_clustering:
  "\<not> own_value_error (hybrid_clustering lib emb texts refs n w)"
  unfolding hybrid_clustering_def
  by (intro rve_and_then rve_hierarchical_clustering rve_hybrid_loop)

lemma rve_centroids_of: "\<not> own_value_error (centroids_of cs)"
  by (induction cs) (simp_all add: rve_and_then_iff rve_simps rve_Inr split: option.splits)

lemma rve_np_array: "\<not> own_value_error (np_array rows)"
  by (simp add: np_array_def rve_simps rve_Inr)

lemma rve_group_centroids_of: "\<not> own_value_error (group_centroids_of gs)"
  by (induction gs) (simp_all add: rve_and_then_iff rve_centroids_of rve_np_array rve_Inr)

lemma rve_group_cluster_groups: "\<not> own_value_error (group_cluster_groups gs)"
  unfolding group_cluster_groups_def Let_def
  by (simp add: rve_and_then_iff rve_group_centroids_of rve_np_array rve_Inr)

lemma rve_levels_loop: "\<not> own_value_error (levels_loop levels gs)"
proof (induction levels gs rule: levels_loop.induct)
  case (1 levels current_level)
  show ?case
  proof (cases "current_level = []")
    case True
    then show ?thesis by (simp add: levels_loop.simps rve_Inr)
  next
    case False
    show ?thesis
    proof (cases "group_cluster_groups current_level")
      case (Inl e)
      with False rve_group_cluster_groups[of current_level] show ?thesis
        by (simp add: levels_loop.simps[of levels] rve_Inl)
    next
      case (Inr nxt)
      with False "1.IH"[OF False Inr] show ?thesis
        by (simp add: levels_loop.simps[of levels])
    qed
  qed
qed

lemma rve_build_cluster_hierarchy: "\<not> own_value_error (build_cluster_hierarchy cs)"
  unfolding build_cluster_hierarchy_def group_similar_clusters_def Let_def
  by (intro rve_and_then rve_centroids_of rve_np_array rve_levels_loop rve_Inr)

lemma rve_extract_topics: "\<not> own_value_error (extract_topics lib fns texts k rows)"
  by (induction rows arbitrary: k)
     (simp_all add: Let_def rve_Inr rve_and_then_iff rve_take_items)

lemma rve_generate_topic_model: "\<not> own_value_error (generate_topic_model lib texts w)"
  unfolding generate_topic_model_def Let_def
  by (simp add: rve_and_then_iff rve_extract_topics rve_simps rve_Inr
           split: option.splits prod.splits)

lemma rve_metrics_loop: "\<not> own_value_error (metrics_loop w emb cs acc)"
proof (induction cs arbitrary: acc)
  case Nil
  show ?case by (cases acc) (simp add: rve_Inr)
next
  case (Cons c cs)
  show ?case by (cases acc) (simp add: Let_def rve_and_then_iff rve_take_items Cons.IH)
qed

lemma rve_calculate_cluster_metrics:
  "\<not> own_value_error (calculate_cluster_metrics lib emb cs w)"
  unfolding calculate_cluster_metrics_def Let_def
  by (simp add: rve_and_then_iff rve_metrics_loop rve_simps rve_Inr split: option.splits)


lemma dispatch_supported_no_own_raise:
  assumes "strategy \<in> set [''hierarchical'', ''topic_modeling'', ''hybrid'']"
  shows "\<not> own_value_error (dispatch_clustering lib strategy kwargs emb texts w)"
  using assms
  by (auto simp: dispatch_clustering_def Let_def rve_simps rve_hierarchical_clustering
        rve_topic_modeling_clustering rve_hybrid_clustering)

lemma dispatch_unsupported:
  assumes "strategy \<notin> set [''hierarchical'', ''topic_modeling'', ''hybrid'']"
  shows "dispatch_clustering lib strategy kwargs emb texts w = Inl (unsupported strategy)"
  using assms by (simp add: dispatch_clustering_def Let_def unsupported_def)

lemma dispatch_own_raise_iff:
  "own_value_error (dispatch_clustering lib strategy kwargs emb texts w)
     \<longleftrightarrow> strategy \<notin> set [''hierarchical'', ''topic_modeling'', ''hybrid'']"
proof
  assume "own_value_error (dispatch_clustering lib strategy kwargs emb texts w)"
  with dispatch_supported_no_own_raise[of strategy lib kwargs emb texts w]
  show "strategy \<notin> set [''hierarchical'', ''topic_modeling'', ''hybrid'']" by blast
next
  assume "strategy \<notin> set [''hierarchical'', ''topic_modeling'', ''hybrid'']"
  from dispatch_unsupported[OF this, of lib kwargs emb texts w]
  show "own_value_error (dispatch_clustering lib strategy kwargs emb texts w)"
    by (simp add: unsupported_def rve_simps)
qed

lemma dispatch_unsupported_iff:
  "dispatch_clustering lib strategy kwargs emb texts w = Inl (unsupported strategy)
     \<longleftrightarrow> strategy \<notin> set [''hierarchical'', ''topic_modeling'', ''hybrid'']"
proof
  assume "dispatch_clustering lib strategy kwargs emb texts w = Inl (unsupported strategy)"
  then have "own_value_error (dispatch_clustering lib strategy kwargs emb texts w)"
    by (simp add: unsupported_def rve_simps)
  then show "strategy \<notin> set [''hierarchical'', ''topic_modeling'', ''hybrid'']"
    using dispatch_own_raise_iff[of lib strategy kwargs emb texts w] by blast
next
  assume "strategy \<notin> set [''hierarchical'', ''topic_modeling'', ''hybrid'']"
  then show "dispatch_clustering lib strategy kwargs emb texts w = Inl (unsupported strategy)"
    by (rule dispatch_unsupported)
qed

lemma perform_own_raise_iff:
  assumes "encode lib (map keyword_text (store w)) = Some emb"
  shows "own_value_error (perform_advanced_clustering lib strategy kwargs w)
     \<longleftrightarrow> strategy \<notin> set [''hierarchical'', ''topic_modeling'', ''hybrid'']"
  using assms
  by (simp add: perform_advanced_clustering_def Let_def rve_and_then_iff rve_Inr
        rve_build_cluster_hierarchy rve_generate_topic_model rve_calculate_cluster_metrics
        dispatch_own_raise_iff)

lemma perform_unsupported_iff:
  assumes "encode lib (map keyword_text (store w)) = Some emb"
  shows "perform_advanced_clustering lib strategy kwargs w = Inl (unsupported strategy)
     \<longleftrightarrow> strategy \<notin> set [''hierarchical'', ''topic_modeling'', ''hybrid'']"
proof
  assume "perform_advanced_clustering lib strategy kwargs w = Inl (unsupported strategy)"
  then have "own_value_error (perform_advanced_clustering lib strategy kwargs w)"
    by (simp add: unsupported_def rve_simps)
  then show "strategy \<notin> set [''hierarchical'', ''topic_modeling'', ''hybrid'']"
    using perform_own_raise_iff[OF assms, of strategy kwargs] by blast
next
  assume "strategy \<notin> set [''hierarchical'', ''topic_modeling'', ''hybrid'']"
  from dispatch_unsupported[OF this] assms
  show "perform_advanced_clustering lib strategy kwargs w = Inl (unsupported strategy)"
    by (simp add: perform_advanced_clustering_def Let_def and_then_def)
qed

text \<open>
  C3, as the code has it. The engine has three strategies: \<open>hierarchical\<close>,
  \<open>topic_modeling\<close> and \<open>hybrid\<close>. The dispatch raises the unsupported-strategy error
  exactly for the names outside this set; when the embeddings are generated the same
  holds of \<open>perform_advanced_clustering\<close>; and each of the three names, with keyword
  arguments its procedure has, is dispatched to its procedure over all the keywords of
  the batch.
\<close>

theorem strategy_dispatch:
  "(dispatch_clustering lib strategy kwargs embeddings keyword_texts w = Inl (unsupported strategy)
      \<longleftrightarrow> strategy \<notin> set [''hierarchical'', ''topic_modeling'', ''hybrid''])
   \<and> (encode lib (map keyword_text (store w)) \<noteq> None \<longrightarrow>
        (perform_advanced_clustering lib strategy kwargs w = Inl (unsupported strategy)
           \<longleftrightarrow> strategy \<notin> set [''hierarchical'', ''topic_modeling'', ''hybrid'']))
   \<and> (kw_n_topics kwargs = None \<and> kw_other kwargs = [] \<longrightarrow>
        dispatch_clustering lib ''hierarchical'' kwargs embeddings keyword_texts w
          = hierarchical_clustering lib embeddings [0..<length (store w)] (kw_n_clusters kwargs)
              (case kw_linkage kwargs of None \<Rightarrow> ''ward'' | Some l \<Rightarrow> l)
              (kw_distance_threshold kwargs) w)
   \<and> (kw_n_clusters kwargs = None \<and> kw_linkage kwargs = None
        \<and> kw_distance_threshold kwargs = None \<and> kw_other kwargs = [] \<longrightarrow>
        dispatch_clustering lib ''topic_modeling'' kwargs embeddings keyword_texts w
          = topic_modeling_clustering lib keyword_texts [0..<length (store w)]
              (case kw_n_topics kwargs of None \<Rightarrow> 10 | Some n \<Rightarrow> n) ''lda'' w)
   \<and> (kw_linkage kwargs = None \<and> kw_distance_threshold kwargs = None
        \<and> kw_n_topics kwargs = None \<and> kw_other kwargs = [] \<longrightarrow>
        dispatch_clustering lib ''hybrid'' kwargs embeddings keyword_texts w
          = hybrid_clustering lib embeddings keyword_texts [0..<length (store w)]
              (kw_n_clusters kwargs) w)"
proof (intro conjI impI)
  show "dispatch_clustering lib strategy kwargs embeddings keyword_texts w = Inl (unsupported strategy)
      \<longleftrightarrow> strategy \<notin> set [''hierarchical'', ''topic_modeling'', ''hybrid'']"
    by (rule dispatch_unsupported_iff)
next
  assume "encode lib (map keyword_text (store w)) \<noteq> None"
  then obtain emb where e: "encode lib (map keyword_text (store w)) = Some emb" by auto
  show "perform_advanced_clustering lib strategy kwargs w = Inl (unsupported strategy)
           \<longleftrightarrow> strategy \<notin> set [''hierarchical'', ''topic_modeling'', ''hybrid'']"
    by (rule perform_unsupported_iff[OF e])
next
  assume "kw_n_topics kwargs = None \<and> kw_other kwargs = []"
  then show "dispatch_clustering lib ''hierarchical'' kwargs embeddings keyword_texts w
          = hierarchical_clustering lib embeddings [0..<length (store w)] (kw_n_clusters kwargs)
              (case kw_linkage kwargs of None \<Rightarrow> ''ward'' | Some l \<Rightarrow> l)
              (kw_distance_threshold kwargs) w"
    by (simp add: dispatch_clustering_def Let_def)
next
  assume "kw_n_clusters kwargs = None \<and> kw_linkage kwargs = None
        \<and> kw_distance_threshold kwargs = None \<and> kw_other kwargs = []"
  then show "dispatch_clustering lib ''topic_modeling'' kwargs embeddings keyword_texts w
          = topic_modeling_clustering lib keyword_texts [0..<length (store w)]
              (case kw_n_topics kwargs of None \<Rightarrow> 10 | Some n \<Rightarrow> n) ''lda'' w"
    by (simp add: dispatch_clustering_def Let_def)
next
  assume "kw_linkage kwargs = None \<and> kw_distance_threshold kwargs = None
        \<and> kw_n_topics kwargs = None \<and> kw_other kwargs = []"
  then show "dispatch_clustering lib ''hybrid'' kwargs embeddings keyword_texts w
          = hybrid_clustering lib embeddings keyword_texts [0..<length (store w)]
              (kw_n_clusters kwargs) w"
    by (simp add: dispatch_clustering_def Let_def)
qed

lemma sample_encode_succeeds:
  "encode sample_library (map keyword_text (store (batch_of equal_texts))) \<noteq> None"
  by code_simp

lemma sample_no_kwargs:
  "kw_n_clusters no_kwargs = None \<and> kw_linkage no_kwargs = None
   \<and> kw_distance_threshold no_kwargs = None \<and> kw_n_topics no_kwargs = None
   \<and> kw_other no_kwargs = []"
  by (simp add: no_kwargs_def)

theorem strategy_dispatch_witness:
  "encode sample_library (map keyword_text (store (batch_of equal_texts))) \<noteq> None
   \<and> ''density'' \<notin> set [''hierarchical'', ''topic_modeling'', ''hybrid'']
   \<and> perform_advanced_clustering sample_library ''density'' no_kwargs (batch_of equal_texts)
       = Inl (unsupported ''density'')
   \<and> ''hybrid'' \<in> set [''hierarchical'', ''topic_modeling'', ''hybrid'']
   \<and> perform_advanced_clustering sample_library ''hybrid'' no_kwargs (batch_of equal_texts)
       \<noteq> Inl (unsupported ''hybrid'')
   \<and> kw_n_clusters no_kwargs = None \<and> kw_linkage no_kwargs = None
   \<and> kw_distance_threshold no_kwargs = None \<and> kw_n_topics no_kwargs = None
   \<and> kw_other no_kwargs = []
   \<and> dispatch_clustering sample_library ''hierarchical'' no_kwargs equal_embeddings equal_texts
        (batch_of equal_texts)
       = hierarchical_clustering sample_library equal_embeddings
           [0..<length (store (batch_of equal_texts))] None ''ward'' None (batch_of equal_texts)
   \<and> dispatch_clustering sample_library ''topic_modeling'' no_kwargs equal_embeddings
        equal_texts (batch_of equal_texts)
       = topic_modeling_clustering sample_library equal_texts
           [0..<length (store (batch_of equal_texts))] 10 ''lda'' (batch_of equal_texts)
   \<and> dispatch_clustering sample_library ''hybrid'' no_kwargs equal_embeddings equal_texts
        (batch_of equal_texts)
       = hybrid_clustering sample_library equal_embeddings equal_texts
           [0..<length (store (batch_of equal_texts))] None (batch_of equal_texts)"
  using strategy_dispatch[where lib = sample_library and strategy = "''density''"
          and kwargs = no_kwargs and w = "batch_of equal_texts"]
    strategy_dispatch[where lib = sample_library and strategy = "''hybrid''"
          and kwargs = no_kwargs and w = "batch_of equal_texts"
          and embeddings = equal_embeddings and keyword_texts = equal_texts]
    sample_encode_succeeds sample_no_kwargs
  by simp

text \<open>
  C3 as the specification states it fails at the name \<open>density\<close>: the engine raises the
  unsupported-strategy error for it.
\<close>

theorem density_unsupported_counterexample:
  "perform_advanced_clustering sample_library ''density'' no_kwargs (batch_of equal_texts)
     = Inl (ValueError ''Unsupported clustering method: density'')"
  by code_simp

section \<open>The hybrid refiner\<close>

















lemma hybrid_loop_abort:
  "refine_or_pass lib refs c w = Inl e \<Longrightarrow> hybrid_loop lib refs (c # rest) (done, w) = Inl e"
  by (simp add: and_then_def)

lemma hybrid_loop_append:
  "hybrid_loop lib refs pre (done, w) = Inr (mid, w1)
     \<Longrightarrow> hybrid_loop lib refs (pre @ rest) (done, w) = hybrid_loop lib refs rest (mid, w1)"
proof (induction pre arbitrary: "done" w)
  case Nil
  then show ?case by simp
next
  case (Cons c pre)
  from Cons.prems obtain c' w2 where
    step: "refine_or_pass lib refs c w = Inr (c', w2)"
    and run: "hybrid_loop lib refs pre (done @ [c'], w2) = Inr (mid, w1)"
    by (auto simp: and_then_def split: sum.splits)
  from Cons.IH[OF run] step show ?case by (simp add: and_then_def)
qed




lemma sample_semantic_step:
  "hierarchical_clustering sample_library equal_embeddings [0..<10] (Some 1) ''ward'' None
     (batch_of equal_texts) = Inr ([semantic_equal_cluster], semantic_equal_world)"
  by code_simp







lemma sample_encode_equal: "encode sample_library equal_texts = Some equal_embeddings"
  by code_simp


section \<open>Failures inside the hybrid refiner\<close>

lemma refine_or_pass_topics_fail:
  assumes big: "5 < length (members_of w refs c)"
    and enc: "encode lib (texts_of w (members_of w refs c)) \<noteq> None"
    and tm: "topic_modeling_clustering lib (texts_of w (members_of w refs c))
               (members_of w refs c) 3 ''lda'' w = Inl e"
  shows "refine_or_pass lib refs c w = Inl e"
proof -
  from big have "min 3 (length (members_of w refs c) div 2) = 3" by simp
  with assms show ?thesis
    by (auto simp: refine_or_pass_def Let_def texts_of_def and_then_def)
qed

lemma hybrid_clustering_abort:
  assumes "hierarchical_clustering lib emb refs n ''ward'' None w = Inr (sem, w1)"
    and "hybrid_loop lib refs sem ([], w1) = Inl e"
  shows "hybrid_clustering lib emb texts refs n w = Inl e"
  using assms by (simp add: hybrid_clustering_def and_then_def)

lemma perform_hybrid_abort:
  assumes "encode lib (map keyword_text (store w)) = Some emb"
    and "kw_linkage kwargs = None \<and> kw_distance_threshold kwargs = None
         \<and> kw_n_topics kwargs = None \<and> kw_other kwargs = []"
    and "hybrid_clustering lib emb (map keyword_text (store w)) [0..<length (store w)]
           (kw_n_clusters kwargs) w = Inl e"
  shows "perform_advanced_clustering lib ''hybrid'' kwargs w = Inl e"
  using assms
  by (simp add: perform_advanced_clustering_def dispatch_clustering_def Let_def and_then_def)

lemma alt_labels:
  "agglomerative stop_word_library 2 ''ward'' None alternating_embeddings
     = Some [0, 1, 0, 1, 0, 1, 0, 1, 0, 1, 0, 1]"
  by code_simp

lemma alt_unique: "np_unique [0, 1, 0, 1, 0, 1, 0, 1, 0, 1, 0, 1] = [0, 1]"
  by code_simp

lemma alt_first_object:
  "cluster_object_for stop_word_library [0..<12] [0, 1, 0, 1, 0, 1, 0, 1, 0, 1, 0, 1]
     alternating_embeddings 0 (batch_of alternating_texts)
     = Inr (stop_word_cluster, alternating_mid_world)"
  by code_simp

lemma alt_second_object:
  "cluster_object_for stop_word_library [0..<12] [0, 1, 0, 1, 0, 1, 0, 1, 0, 1, 0, 1]
     alternating_embeddings 1 alternating_mid_world
     = Inr (seo_tools_cluster, semantic_alternating_world)"
  by code_simp

lemma alt_semantic_step:
  "hierarchical_clustering stop_word_library alternating_embeddings [0..<12] (Some 2) ''ward''
     None (batch_of alternating_texts)
     = Inr ([stop_word_cluster, seo_tools_cluster], semantic_alternating_world)"
  by (simp add: hierarchical_clustering_def create_cluster_objects_def alt_labels alt_unique
        alt_first_object alt_second_object and_then_def del: upt_Suc)

lemma alt_refine_seo_tools:
  "refine_or_pass stop_word_library [0..<12] seo_tools_cluster semantic_alternating_world
     = Inr (refined_seo_tools_cluster, refined_alternating_world)"
  by code_simp

lemma alt_members:
  "length (members_of semantic_alternating_world [0..<12] stop_word_cluster) = 6"
  by code_simp

lemma alt_encode:
  "encode stop_word_library
     (texts_of semantic_alternating_world
        (members_of semantic_alternating_world [0..<12] stop_word_cluster)) \<noteq> None"
  by code_simp

lemma alt_topics_fail:
  "topic_modeling_clustering stop_word_library
     (texts_of semantic_alternating_world
        (members_of semantic_alternating_world [0..<12] stop_word_cluster))
     (members_of semantic_alternating_world [0..<12] stop_word_cluster) 3 ''lda''
     semantic_alternating_world
     = Inl (LibraryError ''TfidfVectorizer'')"
  by code_simp

lemma alt_encode_batch:
  "encode stop_word_library (map keyword_text (store (batch_of alternating_texts)))
     = Some alternating_embeddings"
  by code_simp

lemma alt_batch_texts:
  "map keyword_text (store (batch_of alternating_texts)) = alternating_texts"
  by code_simp

lemma alt_batch_length: "length (store (batch_of alternating_texts)) = 12"
  by code_simp

lemma alt_kwargs:
  "kw_linkage two_clusters = None \<and> kw_distance_threshold two_clusters = None
   \<and> kw_n_topics two_clusters = None \<and> kw_other two_clusters = []
   \<and> kw_n_clusters two_clusters = Some 2"
  by (simp add: two_clusters_def no_kwargs_def)


lemma alt_refine_stop_words:
  "refine_or_pass stop_word_library [0..<12] stop_word_cluster semantic_alternating_world
     = Inl (LibraryError ''TfidfVectorizer'')"
  using alt_members alt_encode alt_topics_fail by (intro refine_or_pass_topics_fail) simp_all

lemma alt_loop_aborts:
  "hybrid_loop stop_word_library [0..<12] [stop_word_cluster, seo_tools_cluster]
     ([], semantic_alternating_world) = Inl (LibraryError ''TfidfVectorizer'')"
  using alt_refine_stop_words by (rule hybrid_loop_abort)

lemma alt_hybrid_aborts:
  "hybrid_clustering stop_word_library alternating_embeddings alternating_texts [0..<12] (Some 2)
     (batch_of alternating_texts) = Inl (LibraryError ''TfidfVectorizer'')"
  using alt_semantic_step alt_loop_aborts by (rule hybrid_clustering_abort)

text \<open>
  C5 fails on the code. In the alternating batch the hierarchical step makes two clusters
  of six keywords; the cluster of \<open>seo tools\<close> can be refined, the topic modelling of the
  cluster of stop words raises (an empty vocabulary), and the engine returns neither the
  one refined nor the other unrefined: the failure leaves \<open>_hybrid_clustering\<close>, whose calls
  of \<open>_generate_embeddings\<close> and \<open>_topic_modeling_clustering\<close> stand outside the handler of
  \<open>_refine_cluster_with_topics\<close>, and is the result of the whole batch.
\<close>

theorem refinement_abort_counterexample:
  "hierarchical_clustering stop_word_library alternating_embeddings [0..<12] (Some 2) ''ward''
     None (batch_of alternating_texts)
     = Inr ([stop_word_cluster, seo_tools_cluster], semantic_alternating_world)
   \<and> refine_or_pass stop_word_library [0..<12] seo_tools_cluster semantic_alternating_world
       = Inr (refined_seo_tools_cluster, refined_alternating_world)
   \<and> refine_or_pass stop_word_library [0..<12] stop_word_cluster semantic_alternating_world
       = Inl (LibraryError ''TfidfVectorizer'')
   \<and> perform_advanced_clustering stop_word_library ''hybrid'' two_clusters
        (batch_of alternating_texts) = Inl (LibraryError ''TfidfVectorizer'')"
proof -
  have "perform_advanced_clustering stop_word_library ''hybrid'' two_clusters
          (batch_of alternating_texts) = Inl (LibraryError ''TfidfVectorizer'')"
    using alt_encode_batch alt_kwargs alt_hybrid_aborts
    by (intro perform_hybrid_abort[where emb = alternating_embeddings])
       (simp_all add: alt_batch_texts alt_batch_length)
  with alt_semantic_step alt_refine_seo_tools alt_refine_stop_words show ?thesis by simp
qed

section \<open>The cluster worker\<close>

text \<open>
  C9. For the empty keyword batch \<open>cluster_keywords\<close> returns, without raising, the result
  with no clusters and the metadata \<open>total_clusters = 0\<close>, \<open>avg_cluster_size = 0\<close>,
  \<open>silhouette_score = 0\<close>, whatever the libraries do.
\<close>

theorem empty_batch_result:
  "cluster_keywords lib []
     = Inr \<lparr>res_clusters = [],
            res_metadata = \<lparr>md_total_clusters = 0, md_avg_cluster_size = 0,
                             md_silhouette_score = 0\<rparr>\<rparr>"
  by (simp add: cluster_keywords_def empty_result_def)

lemma body_embeddings_fail:
  "cw_embeddings lib keywords = Inl e \<Longrightarrow> cluster_keywords_body lib keywords = Inl e"
  by (simp add: cluster_keywords_body_def and_then_def)

lemma body_clustering_fails:
  "cw_embeddings lib keywords = Inr embeddings \<Longrightarrow> cw_perform_clustering lib embeddings = Inl e
     \<Longrightarrow> cluster_keywords_body lib keywords = Inl e"
  by (simp add: cluster_keywords_body_def and_then_def)

lemma body_objects_fail:
  "cw_embeddings lib keywords = Inr embeddings
     \<Longrightarrow> cw_perform_clustering lib embeddings = Inr cluster_labels
     \<Longrightarrow> cw_create_cluster_objects lib keywords cluster_labels embeddings = Inl e
     \<Longrightarrow> cluster_keywords_body lib keywords = Inl e"
  by (simp add: cluster_keywords_body_def and_then_def)

lemma body_returns:
  "cw_embeddings lib keywords = Inr embeddings
     \<Longrightarrow> cw_perform_clustering lib embeddings = Inr cluster_labels
     \<Longrightarrow> cw_create_cluster_objects lib keywords cluster_labels embeddings = Inr clusters
     \<Longrightarrow> cluster_keywords_body lib keywords
           = Inr \<lparr>res_clusters = clusters,
                  res_metadata = cw_calculate_cluster_metadata lib clusters embeddings
                                   cluster_labels\<rparr>"
  by (simp add: cluster_keywords_body_def and_then_def)

lemma handler_returns_empty:
  "cluster_keywords_body lib keywords = Inl e \<Longrightarrow> cluster_keywords lib keywords = Inr empty_result"
  by (simp add: cluster_keywords_def)

lemma cluster_keywords_returns: "\<exists>result. cluster_keywords lib keywords = Inr result"
  by (simp add: cluster_keywords_def split: sum.splits)

text \<open>
  C10. \<open>cluster_keywords\<close> returns a result for every batch and every behaviour of the
  libraries: it never raises. Whenever the statements inside its \<open>try\<close> raise, it returns
  the empty result; so it does when the embeddings raise (generated or read from the
  keywords), when the embeddings are there and the density clustering raises, and when
  both are there and the building of the cluster objects raises. The metadata
  calculation has no statement that raises outside its own handler, which leaves the
  silhouette score at 0. When no stage raises, a batch that is not empty gets the
  clusters and the metadata that the stages computed.
\<close>

theorem worker_never_raises:
  "(\<exists>result. cluster_keywords lib batch = Inr result)
   \<and> (cluster_keywords_body lib batch = Inl e
        \<longrightarrow> cluster_keywords lib batch = Inr empty_result)
   \<and> (cw_embeddings lib batch = Inl e
        \<longrightarrow> cluster_keywords lib batch = Inr empty_result)
   \<and> (cw_embeddings lib batch = Inr embeddings
        \<and> cw_perform_clustering lib embeddings = Inl e
        \<longrightarrow> cluster_keywords lib batch = Inr empty_result)
   \<and> (cw_embeddings lib batch = Inr embeddings
        \<and> cw_perform_clustering lib embeddings = Inr cluster_labels
        \<and> cw_create_cluster_objects lib batch cluster_labels embeddings = Inl e
        \<longrightarrow> cluster_keywords lib batch = Inr empty_result)
   \<and> (batch \<noteq> [] \<and> cw_embeddings lib batch = Inr embeddings
        \<and> cw_perform_clustering lib embeddings = Inr cluster_labels
        \<and> cw_create_cluster_objects lib batch cluster_labels embeddings = Inr clusters
        \<longrightarrow> cluster_keywords lib batch
              = Inr \<lparr>res_clusters = clusters,
                     res_metadata = cw_calculate_cluster_metadata lib clusters embeddings
                                      cluster_labels\<rparr>)"
proof (intro conjI impI)
  show "\<exists>result. cluster_keywords lib batch = Inr result" by (rule cluster_keywords_returns)
next
  assume "cluster_keywords_body lib batch = Inl e"
  then show "cluster_keywords lib batch = Inr empty_result" by (rule handler_returns_empty)
next
  assume "cw_embeddings lib batch = Inl e"
  then have "cluster_keywords_body lib batch = Inl e" by (rule body_embeddings_fail)
  then show "cluster_keywords lib batch = Inr empty_result" by (rule handler_returns_empty)
next
  assume "cw_embeddings lib batch = Inr embeddings
        \<and> cw_perform_clustering lib embeddings = Inl e"
  then have "cluster_keywords_body lib batch = Inl e" by (auto intro: body_clustering_fails)
  then show "cluster_keywords lib batch = Inr empty_result" by (rule handler_returns_empty)
next
  assume "cw_embeddings lib batch = Inr embeddings
        \<and> cw_perform_clustering lib embeddings = Inr cluster_labels
        \<and> cw_create_cluster_objects lib batch cluster_labels embeddings = Inl e"
  then have "cluster_keywords_body lib batch = Inl e" by (auto intro: body_objects_fail)
  then show "cluster_keywords lib batch = Inr empty_result" by (rule handler_returns_empty)
next
  assume a: "batch \<noteq> [] \<and> cw_embeddings lib batch = Inr embeddings
        \<and> cw_perform_clustering lib embeddings = Inr cluster_labels
        \<and> cw_create_cluster_objects lib batch cluster_labels embeddings = Inr clusters"
  then have "cluster_keywords_body lib batch
           = Inr \<lparr>res_clusters = clusters,
                  res_metadata = cw_calculate_cluster_metadata lib clusters embeddings
                                   cluster_labels\<rparr>"
    by (auto intro: body_returns)
  with a show "cluster_keywords lib batch
              = Inr \<lparr>res_clusters = clusters,
                     res_metadata = cw_calculate_cluster_metadata lib clusters embeddings
                                      cluster_labels\<rparr>"
    by (simp add: cluster_keywords_def)
qed

lemma textless_embeddings:
  "cw_embeddings sample_library textless_batch = Inl (KeyError ''keyword'')"
  by code_simp

lemma worker_embeddings:
  "cw_embeddings failing_hdbscan_library worker_batch = Inr [[14], [13], [12]]"
  by code_simp

lemma worker_clustering_fails:
  "cw_perform_clustering failing_hdbscan_library [[14], [13], [12]]
     = Inl (LibraryError ''HDBSCAN'')"
  by code_simp

lemma embedded_embeddings:
  "cw_embeddings sample_library embedded_textless_batch = Inr [[1, 0], [1, 0], [1, 0]]"
  by code_simp

lemma embedded_clustering:
  "cw_perform_clustering sample_library [[1, 0], [1, 0], [1, 0]] = Inr [0, 0, 1]"
  by code_simp

lemma embedded_objects_fail:
  "cw_create_cluster_objects sample_library embedded_textless_batch [0, 0, 1]
     [[1, 0], [1, 0], [1, 0]] = Inl (KeyError ''keyword'')"
  by code_simp

lemma worker_embeddings_sample:
  "cw_embeddings sample_library worker_batch = Inr [[14], [13], [12]]"
  by code_simp

lemma worker_clustering:
  "cw_perform_clustering sample_library [[14], [13], [12]] = Inr [0, 0, 1]"
  by code_simp

lemma worker_objects:
  "cw_create_cluster_objects sample_library worker_batch [0, 0, 1] [[14], [13], [12]]
     = Inr worker_clusters"
  by code_simp

lemma worker_metadata:
  "cw_calculate_cluster_metadata sample_library worker_clusters [[14], [13], [12]] [0, 0, 1]
     = \<lparr>md_total_clusters = 2, md_avg_cluster_size = 3 / 2, md_silhouette_score = 1 / 2\<rparr>"
  by code_simp

lemma worker_batch_nonempty: "worker_batch \<noteq> []"
  by code_simp

theorem worker_never_raises_witness:
  "cw_embeddings sample_library textless_batch = Inl (KeyError ''keyword'')
   \<and> cluster_keywords sample_library textless_batch = Inr empty_result
   \<and> cw_embeddings failing_hdbscan_library worker_batch = Inr [[14], [13], [12]]
   \<and> cw_perform_clustering failing_hdbscan_library [[14], [13], [12]]
       = Inl (LibraryError ''HDBSCAN'')
   \<and> cluster_keywords failing_hdbscan_library worker_batch = Inr empty_result
   \<and> cw_embeddings sample_library embedded_textless_batch = Inr [[1, 0], [1, 0], [1, 0]]
   \<and> cw_perform_clustering sample_library [[1, 0], [1, 0], [1, 0]] = Inr [0, 0, 1]
   \<and> cw_create_cluster_objects sample_library embedded_textless_batch [0, 0, 1]
        [[1, 0], [1, 0], [1, 0]] = Inl (KeyError ''keyword'')
   \<and> cluster_keywords sample_library embedded_textless_batch = Inr empty_result
   \<and> worker_batch \<noteq> []
   \<and> cw_embeddings sample_library worker_batch = Inr [[14], [13], [12]]
   \<and> cw_perform_clustering sample_library [[14], [13], [12]] = Inr [0, 0, 1]
   \<and> cw_create_cluster_objects sample_library worker_batch [0, 0, 1] [[14], [13], [12]]
       = Inr worker_clusters
   \<and> cluster_keywords sample_library worker_batch
       = Inr \<lparr>res_clusters = worker_clusters,
              res_metadata = \<lparr>md_total_clusters = 2, md_avg_cluster_size = 3 / 2,
                               md_silhouette_score = 1 / 2\<rparr>\<rparr>"
proof -
  note emb = worker_never_raises[where lib = sample_library and batch = textless_batch
      and e = "KeyError ''keyword''", THEN conjunct2, THEN conjunct2, THEN conjunct1]
  note clu = worker_never_raises[where lib = failing_hdbscan_library and batch = worker_batch
      and e = "LibraryError ''HDBSCAN''" and embeddings = "[[14], [13], [12]]",
      THEN conjunct2, THEN conjunct2, THEN conjunct2, THEN conjunct1]
  note obj = worker_never_raises[where lib = sample_library
      and batch = embedded_textless_batch and e = "KeyError ''keyword''"
      and embeddings = "[[1, 0], [1, 0], [1, 0]]" and cluster_labels = "[0, 0, 1]",
      THEN conjunct2, THEN conjunct2, THEN conjunct2, THEN conjunct2, THEN conjunct1]
  note ret = worker_never_raises[where lib = sample_library and batch = worker_batch
      and embeddings = "[[14], [13], [12]]" and cluster_labels = "[0, 0, 1]"
      and clusters = worker_clusters,
      THEN conjunct2, THEN conjunct2, THEN conjunct2, THEN conjunct2, THEN conjunct2]
  from emb textless_embeddings
  have r1: "cluster_keywords sample_library textless_batch = Inr empty_result" by blast
  from clu worker_embeddings worker_clustering_fails
  have r2: "cluster_keywords failing_hdbscan_library worker_batch = Inr empty_result" by blast
  from obj embedded_embeddings embedded_clustering embedded_objects_fail
  have r3: "cluster_keywords sample_library embedded_textless_batch = Inr empty_result"
    by blast
  from ret worker_batch_nonempty worker_embeddings_sample worker_clustering worker_objects
  have r4: "cluster_keywords sample_library worker_batch
       = Inr \<lparr>res_clusters = worker_clusters,
              res_metadata = \<lparr>md_total_clusters = 2, md_avg_cluster_size = 3 / 2,
                               md_silhouette_score = 1 / 2\<rparr>\<rparr>"
    by (simp add: worker_metadata)
  from textless_embeddings r1 worker_embeddings worker_clustering_fails r2 embedded_embeddings
    embedded_clustering embedded_objects_fail r3 worker_batch_nonempty worker_embeddings_sample
    worker_clustering worker_objects r4
  show ?thesis by (intro conjI)
qed

end
